theory Spec2Isabelle
  imports Main
begin

section \<open>Strings, as the routes use them\<close>

text \<open>
  A JavaScript string is modelled by its UTF-8 encoding: an ASCII character is one
  \<open>char\<close>, any other character the bytes of its encoding. Transaction hashes and
  addresses are ASCII; a query parameter, decoded from the URL, may hold any character.
  \<open>toLowerCase\<close> folds the ASCII letters, which is all
  \<^verbatim>\<open>String.prototype.toLowerCase\<close> does on an address.
\<close>

definition isHexDigit :: "char \<Rightarrow> bool" where
  "isHexDigit c = (c \<in> set ''0123456789abcdefABCDEF'')"

text \<open>\<^verbatim>\<open>/^0x[a-fA-F0-9]{64}$/.test(x)\<close>\<close>

definition isTxHash :: "string \<Rightarrow> bool" where
  "isTxHash x = (length x = 66 \<and> take 2 x = ''0x'' \<and> list_all isHexDigit (drop 2 x))"

definition lowerChar :: "char \<Rightarrow> char" where
  "lowerChar c =
     (case map_of (zip ''ABCDEFGHIJKLMNOPQRSTUVWXYZ'' ''abcdefghijklmnopqrstuvwxyz'') c of
        Some d \<Rightarrow> d
      | None \<Rightarrow> c)"

definition toLowerCase :: "string \<Rightarrow> string" where
  "toLowerCase s = map lowerChar s"

text \<open>
  The characters that \<^verbatim>\<open>String.prototype.trim\<close> strips, encoded: the white space
  (U+0009, U+000B, U+000C, U+0020, U+00A0, U+1680, U+2000 to U+200A, U+202F, U+205F,
  U+3000, U+FEFF) and the line terminators (U+000A, U+000D, U+2028, U+2029).
\<close>

definition whiteSpace :: "string list" where
  "whiteSpace =
     [[CHR 0x09], [CHR 0x0A], [CHR 0x0B], [CHR 0x0C], [CHR 0x0D], [CHR 0x20],
      [CHR 0xC2, CHR 0xA0],
      [CHR 0xE1, CHR 0x9A, CHR 0x80],
      [CHR 0xE2, CHR 0x80, CHR 0x80], [CHR 0xE2, CHR 0x80, CHR 0x81],
      [CHR 0xE2, CHR 0x80, CHR 0x82], [CHR 0xE2, CHR 0x80, CHR 0x83],
      [CHR 0xE2, CHR 0x80, CHR 0x84], [CHR 0xE2, CHR 0x80, CHR 0x85],
      [CHR 0xE2, CHR 0x80, CHR 0x86], [CHR 0xE2, CHR 0x80, CHR 0x87],
      [CHR 0xE2, CHR 0x80, CHR 0x88], [CHR 0xE2, CHR 0x80, CHR 0x89],
      [CHR 0xE2, CHR 0x80, CHR 0x8A],
      [CHR 0xE2, CHR 0x80, CHR 0xA8], [CHR 0xE2, CHR 0x80, CHR 0xA9],
      [CHR 0xE2, CHR 0x80, CHR 0xAF],
      [CHR 0xE2, CHR 0x81, CHR 0x9F],
      [CHR 0xE3, CHR 0x80, CHR 0x80],
      [CHR 0xEF, CHR 0xBB, CHR 0xBF]]"

text \<open>
  Stripping from the front as long as the string starts with one of the given encoded
  characters. From the end, the same on the reversed string with the reversed encodings:
  in UTF-8 a string ends with the encoding of a character only when that character is
  its last.
\<close>

fun stripLeading :: "string list \<Rightarrow> string \<Rightarrow> string" where
  "stripLeading ws [] = []"
| "stripLeading ws (c # cs) =
     (case find (\<lambda>w. w \<noteq> [] \<and> take (length w) (c # cs) = w) ws of
        None \<Rightarrow> c # cs
      | Some w \<Rightarrow> stripLeading ws (drop (length w - 1) cs))"

definition trimStart :: "string \<Rightarrow> string" where
  "trimStart s = stripLeading whiteSpace s"

definition trimEnd :: "string \<Rightarrow> string" where
  "trimEnd s = rev (stripLeading (map rev whiteSpace) (rev s))"

definition trim :: "string \<Rightarrow> string" where
  "trim s = trimEnd (trimStart s)"

text \<open>\<^verbatim>\<open>url.searchParams.get(k) || ""\<close>: an absent parameter reads as the empty string.\<close>

definition orEmpty :: "string option \<Rightarrow> string" where
  "orEmpty v = (case v of None \<Rightarrow> [] | Some x \<Rightarrow> x)"

text \<open>Truthiness of an optional string: \<^verbatim>\<open>null\<close>, \<^verbatim>\<open>undefined\<close> and \<^verbatim>\<open>""\<close> are falsy.\<close>

definition truthy :: "string option \<Rightarrow> bool" where
  "truthy v = (case v of None \<Rightarrow> False | Some x \<Rightarrow> x \<noteq> [])"

text \<open>Template rendering of a non-negative count, \<^verbatim>\<open>`${n}`\<close>.\<close>

fun showNat :: "nat \<Rightarrow> string" where
  "showNat n =
     (if n < 10 then [''0123456789'' ! n]
      else showNat (n div 10) @ [''0123456789'' ! (n mod 10)])"

section \<open>Configuration\<close>

definition PAYMENT_ADDRESS :: string where
  "PAYMENT_ADDRESS = ''0x3B5Ca729ae7D427616873f5CD0B9418243090c4c''"

definition USDC_BASE :: string where
  "USDC_BASE = ''0x833589fCD6eDb6E08f4c7C32D4f71b54bdA02913''"

definition PRICE_USDC_UNITS :: nat where
  "PRICE_USDC_UNITS = 3000000"

definition BASE_CHAIN_ID :: int where
  "BASE_CHAIN_ID = 8453"

definition MIN_CONFIRMATIONS :: int where
  "MIN_CONFIRMATIONS = 1"

definition RPC_URLS :: "string list" where
  "RPC_URLS =
     [''https://base.publicnode.com'',
      ''https://mainnet.base.org'',
      ''https://base.llamarpc.com'',
      ''https://1rpc.io/base'']"

section \<open>Chain data\<close>

datatype js_error = Error string

record event_log =
  log_address :: "string option"
  log_topics :: "string list"
  log_data :: string

record transaction =
  tx_from :: "string option"
  tx_to :: "string option"
  tx_value :: "nat option"
  tx_data :: string
  tx_blockNumber :: "int option"

record receipt =
  rc_status :: "int option"
  rc_blockNumber :: int
  rc_gasUsed :: "nat option"
  rc_effectiveGasPrice :: "nat option"
  rc_logs :: "event_log list"

record network =
  chainId :: int

record log_filter =
  fromBlock :: int
  toBlock :: int
  flt_address :: string
  flt_topics :: "string option list"

section \<open>The RPC nodes\<close>

text \<open>
  A node, as it answers at one moment: each read either throws or returns. The chain and
  the nodes change while a request runs, so the environment gives, for the \<open>n\<close>-th
  call a request issues and the URL it goes to, the node as it answers then. The state a
  request threads is the list of the calls it has issued so far.
\<close>

record rpc_node =
  getBlockNumber :: "js_error + int"
  getNetwork :: "js_error + network"
  getTransaction :: "string \<Rightarrow> js_error + transaction option"
  getTransactionReceipt :: "string \<Rightarrow> js_error + receipt option"
  getLogs :: "log_filter \<Rightarrow> js_error + event_log list"

datatype rpc_call =
    GetBlockNumber
  | GetNetwork
  | GetTransaction string
  | GetTransactionReceipt string
  | GetLogs log_filter

type_synonym chain_env = "nat \<Rightarrow> string \<Rightarrow> rpc_node"

type_synonym trace = "(string \<times> rpc_call) list"

type_synonym 'a io = "trace \<Rightarrow> (js_error + 'a) \<times> trace"

definition rpc :: "chain_env \<Rightarrow> (rpc_node \<Rightarrow> js_error + 'a) \<Rightarrow> rpc_call \<Rightarrow> string \<Rightarrow> 'a io" where
  "rpc env sel c url s = (sel (env (length s) url), s @ [(url, c)])"

definition p_getBlockNumber :: "chain_env \<Rightarrow> string \<Rightarrow> int io" where
  "p_getBlockNumber env = rpc env getBlockNumber GetBlockNumber"

definition p_getNetwork :: "chain_env \<Rightarrow> string \<Rightarrow> network io" where
  "p_getNetwork env = rpc env getNetwork GetNetwork"

definition p_getTransaction :: "chain_env \<Rightarrow> string \<Rightarrow> string \<Rightarrow> transaction option io" where
  "p_getTransaction env h = rpc env (\<lambda>n. getTransaction n h) (GetTransaction h)"

definition p_getTransactionReceipt :: "chain_env \<Rightarrow> string \<Rightarrow> string \<Rightarrow> receipt option io" where
  "p_getTransactionReceipt env h = rpc env (\<lambda>n. getTransactionReceipt n h) (GetTransactionReceipt h)"

definition p_getLogs :: "chain_env \<Rightarrow> log_filter \<Rightarrow> string \<Rightarrow> event_log list io" where
  "p_getLogs env f = rpc env (\<lambda>n. getLogs n f) (GetLogs f)"

section \<open>The provider pool\<close>

text \<open>
  \<^verbatim>\<open>withAnyProvider(fn)\<close>: for each URL in order, the body of the \<^verbatim>\<open>try\<close> probes the
  node (\<^verbatim>\<open>getBlockNumber\<close>) and then runs \<open>fn\<close> on it; whatever is thrown becomes
  \<^verbatim>\<open>lastErr\<close> and the loop goes on. After the loop, \<^verbatim>\<open>throw lastErr ?? new Error(msg)\<close>.
\<close>

definition attempt :: "chain_env \<Rightarrow> (string \<Rightarrow> 'a io) \<Rightarrow> string \<Rightarrow> 'a io" where
  "attempt env fn url s =
     (case p_getBlockNumber env url s of
        (Inl e, s1) \<Rightarrow> (Inl e, s1)
      | (Inr _, s1) \<Rightarrow> fn url s1)"

fun withAnyProviderFrom ::
  "string \<Rightarrow> string list \<Rightarrow> chain_env \<Rightarrow> (string \<Rightarrow> 'a io) \<Rightarrow> js_error option \<Rightarrow> 'a io" where
  "withAnyProviderFrom msg [] env fn lastErr s =
     (Inl (case lastErr of None \<Rightarrow> Error msg | Some e \<Rightarrow> e), s)"
| "withAnyProviderFrom msg (url # urls) env fn lastErr s =
     (case attempt env fn url s of
        (Inl e, s1) \<Rightarrow> withAnyProviderFrom msg urls env fn (Some e) s1
      | (Inr v, s1) \<Rightarrow> (Inr v, s1))"

text \<open>The pool of the explain routes, and the pool of the verify-payment routes.\<close>

definition withAnyProvider :: "chain_env \<Rightarrow> (string \<Rightarrow> 'a io) \<Rightarrow> 'a io" where
  "withAnyProvider env fn = withAnyProviderFrom ''All providers failed'' RPC_URLS env fn None"

definition withAnyProvider_v :: "chain_env \<Rightarrow> (string \<Rightarrow> 'a io) \<Rightarrow> 'a io" where
  "withAnyProvider_v env fn = withAnyProviderFrom ''All RPC providers failed'' RPC_URLS env fn None"

text \<open>The calls that \<open>n\<close> failed liveness probes leave in the trace.\<close>

definition probes :: "string list \<Rightarrow> trace" where
  "probes urls = map (\<lambda>u. (u, GetBlockNumber)) urls"

section \<open>The library, as the routes call it\<close>

text \<open>
  The routes call \<^verbatim>\<open>ethers\<close> and the number formatting of the runtime. Their results are
  parameters of the model: \<open>parseLog\<close> is \<^verbatim>\<open>iface.parseLog({ topics, data })\<close> for the
  interface built from the given event list (it sees the topics and the data of a log, not
  its address; it throws, returns \<^verbatim>\<open>null\<close>, or returns the decoded event);
  \<open>getAddress\<close> is \<^verbatim>\<open>ethers.getAddress\<close>, which throws on a malformed address;
  \<open>transferTopicHash\<close> is \<^verbatim>\<open>iface.getEvent("Transfer")!.topicHash\<close>;
  \<open>etherToFixed6\<close> is \<^verbatim>\<open>Number(ethers.formatEther(wei)).toFixed(6)\<close> and \<open>toUSDC\<close> is
  \<^verbatim>\<open>(Number(v) / 1_000_000).toFixed(6)\<close>, both floating-point renderings left abstract.
\<close>

datatype iface = TransferOnly | TransferAndApproval

datatype log_description =
    Transfer string string nat
  | Approval string string nat

datatype parse_result = ParseThrows | ParseNull | Parsed log_description

record runtime_lib =
  parseLog :: "iface \<Rightarrow> string list \<Rightarrow> string \<Rightarrow> parse_result"
  getAddress :: "string \<Rightarrow> js_error + string"
  transferTopicHash :: string
  zeroPadValue :: "string \<Rightarrow> nat \<Rightarrow> string"
  etherToFixed6 :: "nat \<Rightarrow> string"
  toUSDC :: "nat \<Rightarrow> string"

section \<open>The paid amount\<close>

text \<open>
  \<^verbatim>\<open>getPaidAmountFromLogs(logs)\<close>, the loop with its running \<^verbatim>\<open>total\<close> (here \<open>tot\<close>). A log with a
  falsy address, or an address other than the stablecoin's, is skipped before decoding.
  A decoding that throws or gives \<^verbatim>\<open>null\<close> is skipped. Under the Transfer-only interface
  an \<open>Approval\<close> cannot be decoded; were it, \<^verbatim>\<open>String(parsed.args.to)\<close> would be
  \<^verbatim>\<open>"undefined"\<close> and nothing would be added. The same loop stands inline in
  \<^verbatim>\<open>isPaymentConfirmed\<close>.
\<close>

fun paidLoop :: "runtime_lib \<Rightarrow> event_log list \<Rightarrow> nat \<Rightarrow> nat" where
  "paidLoop L [] tot = tot"
| "paidLoop L (log # logs) tot =
     (case log_address log of
        None \<Rightarrow> paidLoop L logs tot
      | Some a \<Rightarrow>
          if a = [] then paidLoop L logs tot
          else if toLowerCase a \<noteq> toLowerCase USDC_BASE then paidLoop L logs tot
          else
            (case parseLog L TransferOnly (log_topics log) (log_data log) of
               Parsed (Transfer sender recipient amount) \<Rightarrow>
                 if toLowerCase recipient = toLowerCase PAYMENT_ADDRESS
                 then paidLoop L logs (tot + amount)
                 else paidLoop L logs tot
             | Parsed (Approval owner spender amount) \<Rightarrow> paidLoop L logs tot
             | ParseNull \<Rightarrow> paidLoop L logs tot
             | ParseThrows \<Rightarrow> paidLoop L logs tot))"

definition getPaidAmountFromLogs :: "runtime_lib \<Rightarrow> event_log list \<Rightarrow> nat" where
  "getPaidAmountFromLogs L logs = paidLoop L logs 0"

text \<open>
  The specification's reading of the paid amount: keep the logs emitted by the stablecoin
  contract that decode as a transfer to the payment address, and sum their amounts.
\<close>

definition fromStablecoin :: "event_log \<Rightarrow> bool" where
  "fromStablecoin log =
     (case log_address log of
        None \<Rightarrow> False
      | Some a \<Rightarrow> toLowerCase a = toLowerCase USDC_BASE)"

definition inboundAmount :: "runtime_lib \<Rightarrow> event_log \<Rightarrow> nat option" where
  "inboundAmount L log =
     (case parseLog L TransferOnly (log_topics log) (log_data log) of
        Parsed (Transfer sender recipient amount) \<Rightarrow>
          if toLowerCase recipient = toLowerCase PAYMENT_ADDRESS then Some amount else None
      | _ \<Rightarrow> None)"

definition qualifying :: "runtime_lib \<Rightarrow> event_log \<Rightarrow> bool" where
  "qualifying L log = (fromStablecoin log \<and> inboundAmount L log \<noteq> None)"

definition amountOf :: "runtime_lib \<Rightarrow> event_log \<Rightarrow> nat" where
  "amountOf L log = (case inboundAmount L log of None \<Rightarrow> 0 | Some v \<Rightarrow> v)"

definition paidSpec :: "runtime_lib \<Rightarrow> event_log list \<Rightarrow> nat" where
  "paidSpec L logs = sum_list (map (amountOf L) (filter (qualifying L) logs))"

text \<open>The same library with the sender of every decoded transfer replaced.\<close>

definition withSender :: "string \<Rightarrow> parse_result \<Rightarrow> parse_result" where
  "withSender x r =
     (case r of
        Parsed (Transfer sender recipient amount) \<Rightarrow> Parsed (Transfer x recipient amount)
      | _ \<Rightarrow> r)"

definition replaceSenders :: "(string list \<Rightarrow> string \<Rightarrow> string) \<Rightarrow> runtime_lib \<Rightarrow> runtime_lib" where
  "replaceSenders f L =
     L\<lparr>parseLog := (\<lambda>i ts d. withSender (f ts d) (parseLog L i ts d))\<rparr>"

section \<open>The payment verifier\<close>

datatype payment_status = CONFIRMED | PENDING | NOT_FOUND | FAILED

record payment_result =
  ok :: bool
  status :: payment_status
  paidUSDC :: "string option"
  message :: string

definition settle :: "runtime_lib \<Rightarrow> nat \<Rightarrow> string \<Rightarrow> string \<Rightarrow> payment_result" where
  "settle L paid confirmedMsg pendingMsg =
     (if paid \<ge> PRICE_USDC_UNITS
      then \<lparr>ok = True, status = CONFIRMED, paidUSDC = Some (toUSDC L paid), message = confirmedMsg\<rparr>
      else \<lparr>ok = True, status = PENDING, paidUSDC = Some (toUSDC L paid), message = pendingMsg\<rparr>)"

definition transferFilter :: "runtime_lib \<Rightarrow> int \<Rightarrow> log_filter" where
  "transferFilter L b =
     \<lparr>fromBlock = b, toBlock = b, flt_address = USDC_BASE,
      flt_topics = [Some (transferTopicHash L), None, Some (zeroPadValue L PAYMENT_ADDRESS 32)]\<rparr>"

text \<open>
  Steps 3 and 4 of \<^verbatim>\<open>verify\<close>, the same text in both verify-payment routes: look the
  transaction up, and read the transfer logs of its block. \<^verbatim>\<open>!tx.blockNumber\<close> holds for
  an absent block number and for block 0. An exhausted pool throws out of \<^verbatim>\<open>verify\<close>.
\<close>

definition verifyFallback :: "runtime_lib \<Rightarrow> chain_env \<Rightarrow> string \<Rightarrow> payment_result io" where
  "verifyFallback L env txHash s =
     (case withAnyProvider_v env (p_getTransaction env txHash) s of
        (Inl e, s1) \<Rightarrow> (Inl e, s1)
      | (Inr None, s1) \<Rightarrow>
          (Inr \<lparr>ok = True, status = NOT_FOUND, paidUSDC = None,
                message = ''Transaction not found yet.''\<rparr>, s1)
      | (Inr (Some tx), s1) \<Rightarrow>
          (case tx_blockNumber tx of
             None \<Rightarrow>
               (Inr \<lparr>ok = True, status = PENDING, paidUSDC = None,
                     message = ''Transaction is still pending.''\<rparr>, s1)
           | Some b \<Rightarrow>
               if b = 0 then
                 (Inr \<lparr>ok = True, status = PENDING, paidUSDC = None,
                       message = ''Transaction is still pending.''\<rparr>, s1)
               else
                 (case withAnyProvider_v env (p_getLogs env (transferFilter L b)) s1 of
                    (Inl e, s2) \<Rightarrow> (Inl e, s2)
                  | (Inr logs, s2) \<Rightarrow>
                      (Inr (settle L (getPaidAmountFromLogs L logs)
                              ''Payment confirmed (logs fallback).''
                              ''Transaction found, waiting for payment.''), s2))))"

text \<open>\<^verbatim>\<open>let receipt = null; try { receipt = await withAnyProvider(...) } catch {}\<close>\<close>

definition tryReceipt ::
  "(chain_env \<Rightarrow> (string \<Rightarrow> receipt option io) \<Rightarrow> receipt option io) \<Rightarrow>
   chain_env \<Rightarrow> string \<Rightarrow> trace \<Rightarrow> receipt option \<times> trace" where
  "tryReceipt pool env h s =
     (case pool env (p_getTransactionReceipt env h) s of
        (Inl e, s1) \<Rightarrow> (None, s1)
      | (Inr r, s1) \<Rightarrow> (r, s1))"

text \<open>\<^verbatim>\<open>verify\<close> of \<^verbatim>\<open>src/app/api/verify-payment/route.ts\<close>.\<close>

definition verify :: "runtime_lib \<Rightarrow> chain_env \<Rightarrow> string \<Rightarrow> payment_result io" where
  "verify L env txHash s =
     (case withAnyProvider_v env (p_getNetwork env) s of
        (Inl e, s1) \<Rightarrow> (Inl e, s1)
      | (Inr net, s1) \<Rightarrow>
          if chainId net \<noteq> BASE_CHAIN_ID then
            (Inr \<lparr>ok = False, status = FAILED, paidUSDC = None,
                  message = ''Wrong network. Payment must be on Base.''\<rparr>, s1)
          else
            (case tryReceipt withAnyProvider_v env txHash s1 of
               (Some rc, s2) \<Rightarrow>
                 if rc_status rc \<noteq> Some 1 then
                   (Inr \<lparr>ok = False, status = FAILED, paidUSDC = None,
                         message = ''Transaction failed.''\<rparr>, s2)
                 else
                   (Inr (settle L (getPaidAmountFromLogs L (rc_logs rc))
                           ''Payment confirmed.''
                           ''Transaction found, but payment not detected yet.''), s2)
             | (None, s2) \<Rightarrow> verifyFallback L env txHash s2))"

text \<open>
  \<^verbatim>\<open>verify\<close> of the second verify-payment route (the second file of
  \<^verbatim>\<open>src/unnamed/part_000\<close>), which also asks for the current height and requires
  \<^verbatim>\<open>MIN_CONFIRMATIONS\<close>.
\<close>

definition verify_mc :: "runtime_lib \<Rightarrow> chain_env \<Rightarrow> string \<Rightarrow> payment_result io" where
  "verify_mc L env txHash s =
     (case withAnyProvider_v env (p_getNetwork env) s of
        (Inl e, s1) \<Rightarrow> (Inl e, s1)
      | (Inr net, s1) \<Rightarrow>
          if chainId net \<noteq> BASE_CHAIN_ID then
            (Inr \<lparr>ok = False, status = FAILED, paidUSDC = None,
                  message = ''Wrong network. Payment must be on Base.''\<rparr>, s1)
          else
            (case tryReceipt withAnyProvider_v env txHash s1 of
               (Some rc, s2) \<Rightarrow>
                 if rc_status rc \<noteq> Some 1 then
                   (Inr \<lparr>ok = False, status = FAILED, paidUSDC = None,
                         message = ''Transaction failed.''\<rparr>, s2)
                 else
                   (case withAnyProvider_v env (p_getBlockNumber env) s2 of
                      (Inl e, s3) \<Rightarrow> (Inl e, s3)
                    | (Inr latestBlock, s3) \<Rightarrow>
                        if latestBlock - rc_blockNumber rc + 1 < MIN_CONFIRMATIONS then
                          (Inr \<lparr>ok = True, status = PENDING, paidUSDC = None,
                                message = ''Waiting for confirmations.''\<rparr>, s3)
                        else
                          (Inr (settle L (getPaidAmountFromLogs L (rc_logs rc))
                                  ''Payment confirmed.''
                                  ''Transaction found, but payment not detected yet.''), s3))
             | (None, s2) \<Rightarrow> verifyFallback L env txHash s2))"

text \<open>
  The handlers of the verify-payment routes, over either \<^verbatim>\<open>verify\<close>: the string read
  from the request is trimmed and validated; the answer is the HTTP status and the JSON
  body. What \<^verbatim>\<open>verify\<close> throws leaves the handler.
\<close>

record http_response =
  http_status :: nat
  body :: payment_result

definition verifyHandler ::
  "(string \<Rightarrow> payment_result io) \<Rightarrow> string \<Rightarrow> http_response io" where
  "verifyHandler vfy raw s =
     (let txHash = trim raw in
      if \<not> isTxHash txHash then
        (Inr \<lparr>http_status = 400,
              body = \<lparr>ok = False, status = FAILED, paidUSDC = None,
                      message = ''Invalid tx hash.''\<rparr>\<rparr>, s)
      else
        (case vfy txHash s of
           (Inl e, s1) \<Rightarrow> (Inl e, s1)
         | (Inr r, s1) \<Rightarrow> (Inr \<lparr>http_status = 200, body = r\<rparr>, s1)))"

text \<open>\<^verbatim>\<open>GET ?payTx=\<close>: \<^verbatim>\<open>String(url.searchParams.get("payTx") || "")\<close>\<close>

definition verifyPayment_GET :: "runtime_lib \<Rightarrow> chain_env \<Rightarrow> string option \<Rightarrow> http_response io" where
  "verifyPayment_GET L env payTx = verifyHandler (verify L env) (orEmpty payTx)"

definition verifyPayment_mc_GET :: "runtime_lib \<Rightarrow> chain_env \<Rightarrow> string option \<Rightarrow> http_response io" where
  "verifyPayment_mc_GET L env payTx = verifyHandler (verify_mc L env) (orEmpty payTx)"

text \<open>
  \<^verbatim>\<open>POST { txHash }\<close>. The body, as far as the handler reads it: \<^verbatim>\<open>req.json()\<close>
  rejects and the \<^verbatim>\<open>catch\<close> gives \<^verbatim>\<open>{}\<close>; or the body is the JSON \<^verbatim>\<open>null\<close>, and
  reading \<^verbatim>\<open>body.txHash\<close> throws a \<^verbatim>\<open>TypeError\<close> out of the handler; or it is any
  other JSON value, whose \<^verbatim>\<open>txHash\<close> is falsy (absent, \<^verbatim>\<open>null\<close>, \<^verbatim>\<open>false\<close>, \<^verbatim>\<open>0\<close>,
  \<^verbatim>\<open>""\<close>) or truthy, carried here as \<^verbatim>\<open>String(body.txHash)\<close>.
\<close>

datatype txHash_field = Falsy | Truthy string

datatype post_body = NoJson | JsonNull | Json txHash_field

text \<open>\<^verbatim>\<open>String(body.txHash || "")\<close>\<close>

definition bodyTxHash :: "post_body \<Rightarrow> js_error + string" where
  "bodyTxHash b =
     (case b of
        NoJson \<Rightarrow> Inr []
      | JsonNull \<Rightarrow> Inl (Error ''TypeError: Cannot read properties of null'')
      | Json Falsy \<Rightarrow> Inr []
      | Json (Truthy x) \<Rightarrow> Inr x)"

definition verifyHandler_POST ::
  "(string \<Rightarrow> payment_result io) \<Rightarrow> post_body \<Rightarrow> http_response io" where
  "verifyHandler_POST vfy b s =
     (case bodyTxHash b of
        Inl e \<Rightarrow> (Inl e, s)
      | Inr raw \<Rightarrow> verifyHandler vfy raw s)"

definition verifyPayment_POST :: "runtime_lib \<Rightarrow> chain_env \<Rightarrow> post_body \<Rightarrow> http_response io" where
  "verifyPayment_POST L env b = verifyHandler_POST (verify L env) b"

definition verifyPayment_mc_POST :: "runtime_lib \<Rightarrow> chain_env \<Rightarrow> post_body \<Rightarrow> http_response io" where
  "verifyPayment_mc_POST L env b = verifyHandler_POST (verify_mc L env) b"

section \<open>The log classifier and the explanation\<close>

text \<open>The characters outside ASCII that the texts of the routes use, in UTF-8.\<close>

definition bullet :: string where
  "bullet = [CHR 0xE2, CHR 0x80, CHR 0xA2]"

definition ellipsis :: string where
  "ellipsis = [CHR 0xE2, CHR 0x80, CHR 0xA6]"

definition emdash :: string where
  "emdash = [CHR 0xE2, CHR 0x80, CHR 0x94]"

definition endash :: string where
  "endash = [CHR 0xE2, CHR 0x80, CHR 0x93]"

definition rsquo :: string where
  "rsquo = [CHR 0xE2, CHR 0x80, CHR 0x99]"

text \<open>\<^verbatim>\<open>short(addr)\<close>: \<^verbatim>\<open>addr.slice(0, 6) + "..." + addr.slice(-4)\<close>, a dash for a falsy one.\<close>

definition short :: "string option \<Rightarrow> string" where
  "short addr =
     (case addr of
        None \<Rightarrow> emdash
      | Some a \<Rightarrow> if a = [] then emdash else take 6 a @ ellipsis @ drop (length a - 4) a)"

text \<open>\<^verbatim>\<open>x ? ethers.getAddress(x) : null\<close>\<close>

definition normAddress :: "runtime_lib \<Rightarrow> string option \<Rightarrow> js_error + string option" where
  "normAddress L x =
     (case x of
        None \<Rightarrow> Inr None
      | Some a \<Rightarrow>
          if a = [] then Inr None
          else (case getAddress L a of Inl e \<Rightarrow> Inl e | Inr b \<Rightarrow> Inr (Some b)))"

text \<open>\<^verbatim>\<open>(transaction.value ?? BigInt(0)) > BigInt(0) && transaction.data === "0x"\<close>\<close>

definition isEthTransfer :: "transaction \<Rightarrow> bool" where
  "isEthTransfer t = ((case tx_value t of None \<Rightarrow> 0 | Some v \<Rightarrow> v) > 0 \<and> tx_data t = ''0x'')"

definition summaryOf :: "transaction \<Rightarrow> string" where
  "summaryOf t = (if isEthTransfer t then ''ETH transfer'' else ''Contract interaction'')"

text \<open>
  The \<^verbatim>\<open>Set<string>\<close> of touched contracts is a list without repetition, in insertion
  order; its \<^verbatim>\<open>size\<close> is the length.
\<close>

definition setAdd :: "string \<Rightarrow> string list \<Rightarrow> string list" where
  "setAdd x xs = (if x \<in> set xs then xs else xs @ [x])"

record log_stats =
  touchedContracts :: "string list"
  tokenTransfers :: nat
  approvals :: nat

definition touch :: "event_log \<Rightarrow> string list \<Rightarrow> string list" where
  "touch log touched =
     (case log_address log of
        None \<Rightarrow> touched
      | Some a \<Rightarrow> if a = [] then touched else setAdd (toLowerCase a) touched)"

fun classifyLoop :: "runtime_lib \<Rightarrow> event_log list \<Rightarrow> log_stats \<Rightarrow> log_stats" where
  "classifyLoop L [] st = st"
| "classifyLoop L (log # logs) st =
     (let st1 = st\<lparr>touchedContracts := touch log (touchedContracts st)\<rparr> in
      case parseLog L TransferAndApproval (log_topics log) (log_data log) of
        Parsed (Transfer sender recipient amount) \<Rightarrow>
          classifyLoop L logs (st1\<lparr>tokenTransfers := tokenTransfers st1 + 1\<rparr>)
      | Parsed (Approval owner spender amount) \<Rightarrow>
          classifyLoop L logs (st1\<lparr>approvals := approvals st1 + 1\<rparr>)
      | ParseNull \<Rightarrow> classifyLoop L logs st1
      | ParseThrows \<Rightarrow> classifyLoop L logs st1)"

definition noStats :: log_stats where
  "noStats = \<lparr>touchedContracts = [], tokenTransfers = 0, approvals = 0\<rparr>"

definition classify :: "runtime_lib \<Rightarrow> event_log list \<Rightarrow> log_stats" where
  "classify L logs = classifyLoop L logs noStats"

definition risk :: "log_stats \<Rightarrow> string" where
  "risk st =
     (if approvals st > 0 then ''Medium''
      else if length (touchedContracts st) > 1 then ''Low'' @ endash @ ''Medium''
      else ''Low'')"

fun joinLines :: "string list \<Rightarrow> string" where
  "joinLines [] = []"
| "joinLines [l] = l"
| "joinLines (l # ls) = l @ [CHR 0x0A] @ joinLines ls"

definition explanationLines :: "string option \<Rightarrow> string option \<Rightarrow> log_stats \<Rightarrow> string list" where
  "explanationLines sender recipient st =
     [bullet @ '' From: '' @ short sender,
      bullet @ '' To: '' @ short recipient,
      bullet @ '' Contracts touched: '' @ showNat (length (touchedContracts st)),
      bullet @ '' Token transfers: '' @ showNat (tokenTransfers st),
      bullet @ '' Approvals: '' @ showNat (approvals st),
      bullet @ '' Risk level: '' @ risk st]"

record explain_result =
  summary :: string
  fee :: "string option"
  explanation :: string
  basescan :: string
  accessUnlocked :: bool

definition basescanUrl :: "string \<Rightarrow> string" where
  "basescanUrl tx = (if tx \<noteq> [] then ''https://basescan.org/tx/'' @ tx else ''https://basescan.org'')"

section \<open>The explain route that takes no payment reference\<close>

text \<open>\<^verbatim>\<open>GET\<close> of \<^verbatim>\<open>src/app/api/explain/route.ts\<close>. Its answers carry no fee.\<close>

definition placeholder :: "string \<Rightarrow> explain_result" where
  "placeholder tx =
     \<lparr>summary = ''Paste a transaction hash'', fee = None,
      explanation = ''Enter a valid Base transaction hash to see what really happened.'',
      basescan = basescanUrl tx, accessUnlocked = False\<rparr>"

definition stillLoading :: "string \<Rightarrow> explain_result" where
  "stillLoading tx =
     \<lparr>summary = ''Transaction found'', fee = None,
      explanation =
        ''We found this transaction, but details are still loading. Try again shortly.'',
      basescan = basescanUrl tx, accessUnlocked = False\<rparr>"

definition unable :: "string \<Rightarrow> explain_result" where
  "unable tx =
     \<lparr>summary = ''Unable to analyze transaction'', fee = None,
      explanation =
        ''We couldn'' @ rsquo @ ''t analyze this transaction right now. Please try again.'',
      basescan = basescanUrl tx, accessUnlocked = False\<rparr>"

definition explain_GET :: "runtime_lib \<Rightarrow> chain_env \<Rightarrow> string option \<Rightarrow> trace \<Rightarrow> explain_result \<times> trace" where
  "explain_GET L env txParam s =
     (let tx = trim (orEmpty txParam) in
      if tx = [] \<or> \<not> isTxHash tx then (placeholder tx, s)
      else
        (case withAnyProvider env (p_getTransaction env tx) s of
           (Inl e, s1) \<Rightarrow> (unable tx, s1)
         | (Inr transaction, s1) \<Rightarrow>
             (case withAnyProvider env (p_getTransactionReceipt env tx) s1 of
                (Inl e, s2) \<Rightarrow> (unable tx, s2)
              | (Inr rcpt, s2) \<Rightarrow>
                  (case (transaction, rcpt) of
                     (Some t, Some rc) \<Rightarrow>
                       (case normAddress L (tx_from t) of
                          Inl e \<Rightarrow> (unable tx, s2)
                        | Inr sender \<Rightarrow>
                            (case normAddress L (tx_to t) of
                               Inl e \<Rightarrow> (unable tx, s2)
                             | Inr recipient \<Rightarrow>
                                 (\<lparr>summary = summaryOf t, fee = None,
                                   explanation =
                                     joinLines (explanationLines sender recipient
                                       (classify L (rc_logs rc))),
                                   basescan = basescanUrl tx,
                                   accessUnlocked = True\<rparr>, s2)))
                   | _ \<Rightarrow> (stillLoading tx, s2)))))"

section \<open>The explain route that consults the payment reference\<close>

text \<open>
  \<^verbatim>\<open>isPaymentConfirmed(payTx)\<close> of the first file of \<^verbatim>\<open>src/unnamed/part_000\<close>: the
  receipt alone decides. It asks for no network identifier, no height and no logs of a
  block.
\<close>

definition isPaymentConfirmed :: "runtime_lib \<Rightarrow> chain_env \<Rightarrow> string \<Rightarrow> bool io" where
  "isPaymentConfirmed L env payTx s =
     (if \<not> isTxHash payTx then (Inr False, s)
      else
        (case tryReceipt withAnyProvider env payTx s of
           (None, s1) \<Rightarrow> (Inr False, s1)
         | (Some rc, s1) \<Rightarrow>
             if rc_status rc \<noteq> Some 1 then (Inr False, s1)
             else (Inr (getPaidAmountFromLogs L (rc_logs rc) \<ge> PRICE_USDC_UNITS), s1)))"

text \<open>
  \<^verbatim>\<open>let accessUnlocked = false; if (payTx) { try { accessUnlocked = await
  isPaymentConfirmed(payTx) } catch { accessUnlocked = false } }\<close>
\<close>

definition decideUnlock :: "(string \<Rightarrow> bool io) \<Rightarrow> string \<Rightarrow> trace \<Rightarrow> bool \<times> trace" where
  "decideUnlock check payTx s =
     (if payTx \<noteq> [] then
        (case check payTx s of
           (Inl e, s1) \<Rightarrow> (False, s1)
         | (Inr b, s1) \<Rightarrow> (b, s1))
      else (False, s))"

definition placeholder_pay :: "string \<Rightarrow> explain_result" where
  "placeholder_pay tx =
     \<lparr>summary = ''Paste a transaction hash'', fee = Some emdash,
      explanation = ''Enter a valid Base transaction hash (0x...) and press Explain.'',
      basescan = basescanUrl tx, accessUnlocked = False\<rparr>"

definition noDetails :: "string \<Rightarrow> bool \<Rightarrow> explain_result" where
  "noDetails tx unlocked =
     \<lparr>summary = ''We can'' @ rsquo @ ''t load details right now'', fee = Some emdash,
      explanation =
        ''This transaction may be real, but we couldn'' @ rsquo @
        ''t load its details at the moment. Open it on BaseScan and try again in a minute.'',
      basescan = basescanUrl tx, accessUnlocked = unlocked\<rparr>"

definition notEnough :: "string \<Rightarrow> bool \<Rightarrow> explain_result" where
  "notEnough tx unlocked =
     \<lparr>summary = ''We can'' @ rsquo @ ''t load details right now'', fee = Some emdash,
      explanation =
        ''We couldn'' @ rsquo @
        ''t load enough information at the moment. Open it on BaseScan and try again.'',
      basescan = basescanUrl tx, accessUnlocked = unlocked\<rparr>"

definition feeOf :: "runtime_lib \<Rightarrow> receipt option \<Rightarrow> string" where
  "feeOf L rcpt =
     (case rcpt of
        None \<Rightarrow> emdash
      | Some rc \<Rightarrow>
          (case (rc_gasUsed rc, rc_effectiveGasPrice rc) of
             (Some gasUsed, Some effectiveGasPrice) \<Rightarrow>
               etherToFixed6 L (gasUsed * effectiveGasPrice) @ '' ETH''
           | _ \<Rightarrow> emdash))"

definition statsOf :: "runtime_lib \<Rightarrow> receipt option \<Rightarrow> log_stats" where
  "statsOf L rcpt = (case rcpt of None \<Rightarrow> noStats | Some rc \<Rightarrow> classify L (rc_logs rc))"

definition explain_pay_GET ::
  "runtime_lib \<Rightarrow> chain_env \<Rightarrow> string option \<Rightarrow> string option \<Rightarrow> trace \<Rightarrow> explain_result \<times> trace" where
  "explain_pay_GET L env txParam payTxParam s =
     (let tx = trim (orEmpty txParam); payTx = trim (orEmpty payTxParam) in
      if tx = [] \<or> \<not> isTxHash tx then (placeholder_pay tx, s)
      else
        (case decideUnlock (isPaymentConfirmed L env) payTx s of
           (unlocked, s0) \<Rightarrow>
             (case withAnyProvider env (p_getTransaction env tx) s0 of
                (Inl e, s1) \<Rightarrow> (notEnough tx unlocked, s1)
              | (Inr transaction, s1) \<Rightarrow>
                  (case withAnyProvider env (p_getTransactionReceipt env tx) s1 of
                     (Inl e, s2) \<Rightarrow> (notEnough tx unlocked, s2)
                   | (Inr rcpt, s2) \<Rightarrow>
                       (case transaction of
                          None \<Rightarrow> (noDetails tx unlocked, s2)
                        | Some t \<Rightarrow>
                            (case normAddress L (tx_from t) of
                               Inl e \<Rightarrow> (notEnough tx unlocked, s2)
                             | Inr sender \<Rightarrow>
                                 (case normAddress L (tx_to t) of
                                    Inl e \<Rightarrow> (notEnough tx unlocked, s2)
                                  | Inr recipient \<Rightarrow>
                                      (\<lparr>summary = summaryOf t, fee = Some (feeOf L rcpt),
                                        explanation =
                                          joinLines (explanationLines sender recipient
                                            (statsOf L rcpt)),
                                        basescan = basescanUrl tx,
                                        accessUnlocked = unlocked\<rparr>, s2))))))))"

section \<open>Reading the routes\<close>

text \<open>The calls that ask about a transaction: everything but a probe and the network query.\<close>

definition isTxQuery :: "rpc_call \<Rightarrow> bool" where
  "isTxQuery c = (case c of GetBlockNumber \<Rightarrow> False | GetNetwork \<Rightarrow> False | _ \<Rightarrow> True)"

text \<open>The address a log adds to the touched contracts, if it has one.\<close>

definition emitter :: "event_log \<Rightarrow> string option" where
  "emitter log =
     (case log_address log of
        None \<Rightarrow> None
      | Some a \<Rightarrow> if a = [] then None else Some (toLowerCase a))"

definition emitters :: "event_log list \<Rightarrow> string list" where
  "emitters logs = List.map_filter emitter logs"

definition decodesTransfer :: "runtime_lib \<Rightarrow> event_log \<Rightarrow> bool" where
  "decodesTransfer L log =
     (case parseLog L TransferAndApproval (log_topics log) (log_data log) of
        Parsed (Transfer sender recipient amount) \<Rightarrow> True
      | _ \<Rightarrow> False)"

definition decodesApproval :: "runtime_lib \<Rightarrow> event_log \<Rightarrow> bool" where
  "decodesApproval L log =
     (case parseLog L TransferAndApproval (log_topics log) (log_data log) of
        Parsed (Approval owner spender amount) \<Rightarrow> True
      | _ \<Rightarrow> False)"

text \<open>The payment check cannot decode the log: the library throws or answers \<^verbatim>\<open>null\<close>.\<close>

definition decodeFails :: "runtime_lib \<Rightarrow> event_log \<Rightarrow> bool" where
  "decodeFails L log =
     (case parseLog L TransferOnly (log_topics log) (log_data log) of
        ParseThrows \<Rightarrow> True
      | ParseNull \<Rightarrow> True
      | Parsed ev \<Rightarrow> False)"

section \<open>Concrete scenarios\<close>

text \<open>
  A small library and a few nodes on which the routes are run. The library decodes a log
  whose topics are an event name and two addresses, with the amount in decimal as data;
  a log with any other number of topics makes it throw.
\<close>

definition digitVal :: "char \<Rightarrow> nat" where
  "digitVal c =
     (case map_of (zip ''0123456789'' [0, 1, 2, 3, 4, 5, 6, 7, 8, 9]) c of
        Some n \<Rightarrow> n
      | None \<Rightarrow> 0)"

definition readNat :: "string \<Rightarrow> nat" where
  "readNat s = foldl (\<lambda>n c. 10 * n + digitVal c) 0 s"

definition demoParse :: "iface \<Rightarrow> string list \<Rightarrow> string \<Rightarrow> parse_result" where
  "demoParse i ts d =
     (case ts of
        [name, a, b] \<Rightarrow>
          if name = ''Transfer'' then Parsed (Transfer a b (readNat d))
          else if name = ''Approval'' \<and> i = TransferAndApproval then Parsed (Approval a b (readNat d))
          else ParseNull
      | _ \<Rightarrow> ParseThrows)"

definition demoLib :: runtime_lib where
  "demoLib =
     \<lparr>parseLog = demoParse,
      getAddress = (\<lambda>a. if length a = 42 then Inr a else Inl (Error ''invalid address'')),
      transferTopicHash = ''Transfer'',
      zeroPadValue = (\<lambda>a n. a),
      etherToFixed6 = (\<lambda>wei. if wei = 105000 then ''0.000000'' else ''?''),
      toUSDC =
        (\<lambda>v. if v = 3000000 then ''3.000000''
             else if v = 2999999 then ''2.999999''
             else ''?'')\<rparr>"

definition txH :: string where
  "txH = ''0xaaaaaaaaaaaaaaaaaaaaaaaaaaaaaaaaaaaaaaaaaaaaaaaaaaaaaaaaaaaaaaaa''"

definition payA :: string where
  "payA = ''0x1111111111111111111111111111111111111111111111111111111111111111''"

definition payB :: string where
  "payB = ''0x2222222222222222222222222222222222222222222222222222222222222222''"

definition payC :: string where
  "payC = ''0x3333333333333333333333333333333333333333333333333333333333333333''"

definition payS :: string where
  "payS = ''0x4444444444444444444444444444444444444444444444444444444444444444''"

definition payD :: string where
  "payD = ''0x7777777777777777777777777777777777777777777777777777777777777777''"

definition payer :: string where
  "payer = ''0x5555555555555555555555555555555555555555''"

definition otherToken :: string where
  "otherToken = ''0x6666666666666666666666666666666666666666''"

text \<open>A transfer log of the stablecoin to the payment address, both written in another case.\<close>

definition payLog :: "string \<Rightarrow> event_log" where
  "payLog amount =
     \<lparr>log_address = Some ''0x833589FCD6EDB6E08F4C7C32D4F71B54BDA02913'',
      log_topics = [''Transfer'', payer, ''0x3b5ca729ae7d427616873f5cd0b9418243090c4c''],
      log_data = amount\<rparr>"

definition brokenLog :: event_log where
  "brokenLog = \<lparr>log_address = Some USDC_BASE, log_topics = [], log_data = ''0x''\<rparr>"

definition approvalLog :: event_log where
  "approvalLog =
     \<lparr>log_address = Some otherToken, log_topics = [''Approval'', payer, payer], log_data = ''7''\<rparr>"

definition successReceipt :: "event_log list \<Rightarrow> receipt" where
  "successReceipt logs =
     \<lparr>rc_status = Some 1, rc_blockNumber = 90, rc_gasUsed = Some 21000,
      rc_effectiveGasPrice = Some 5, rc_logs = logs\<rparr>"

definition ethTx :: transaction where
  "ethTx =
     \<lparr>tx_from = Some payer, tx_to = Some otherToken, tx_value = Some 5, tx_data = ''0x'',
      tx_blockNumber = Some 90\<rparr>"

definition tokenTx :: transaction where
  "tokenTx =
     \<lparr>tx_from = Some payer, tx_to = Some USDC_BASE, tx_value = Some 0,
      tx_data = ''0xa9059cbb'', tx_blockNumber = Some 90\<rparr>"

text \<open>
  The node of the scenarios. The receipt of \<open>txH\<close> holds an approval of one token and a
  transfer of another; \<open>payA\<close> pays the price, \<open>payS\<close> one unit less, \<open>payC\<close> pays
  the price after a log that cannot be decoded, \<open>payD\<close> holds that log alone;
  \<open>payB\<close> is mined and pays the price, but its receipt is not indexed yet.
\<close>

definition shopNode :: rpc_node where
  "shopNode =
     \<lparr>getBlockNumber = Inr 100,
      getNetwork = Inr \<lparr>chainId = 8453\<rparr>,
      getTransaction =
        (\<lambda>h. if h = txH then Inr (Some ethTx)
             else if h = payA then Inr (Some tokenTx)
             else if h = payB then Inr (Some tokenTx)
             else Inr None),
      getTransactionReceipt =
        (\<lambda>h. if h = txH then Inr (Some (successReceipt [approvalLog, payLog ''12'']))
             else if h = payA then Inr (Some (successReceipt [payLog ''3000000'']))
             else if h = payS then Inr (Some (successReceipt [payLog ''2999999'']))
             else if h = payC then Inr (Some (successReceipt [brokenLog, payLog ''3000000'']))
             else if h = payD then Inr (Some (successReceipt [brokenLog]))
             else Inr None),
      getLogs = (\<lambda>f. Inr [payLog ''3000000''])\<rparr>"

definition downNode :: rpc_node where
  "downNode =
     \<lparr>getBlockNumber = Inl (Error ''timeout''),
      getNetwork = Inl (Error ''timeout''),
      getTransaction = (\<lambda>h. Inl (Error ''timeout'')),
      getTransactionReceipt = (\<lambda>h. Inl (Error ''timeout'')),
      getLogs = (\<lambda>f. Inl (Error ''timeout''))\<rparr>"

definition shop :: chain_env where
  "shop n url = shopNode"

definition lastUp :: chain_env where
  "lastUp n url = (if url = ''https://1rpc.io/base'' then shopNode else downNode)"

definition allDown :: chain_env where
  "allDown n url = downNode"

text \<open>The same nodes, seen from a height below the block of the receipts.\<close>

definition lagging :: chain_env where
  "lagging n url = shopNode\<lparr>getBlockNumber := Inr 89\<rparr>"

text \<open>The same nodes, on another chain.\<close>

definition wrongChain :: chain_env where
  "wrongChain n url = shopNode\<lparr>getNetwork := Inr \<lparr>chainId = 1\<rparr>\<rparr>"

section \<open>Provider failover\<close>

lemma attempt_probe_fails:
  "getBlockNumber (env (length s) url) = Inl e \<Longrightarrow>
   attempt env fn url s = (Inl e, s @ [(url, GetBlockNumber)])"
  by (simp add: attempt_def p_getBlockNumber_def rpc_def)

lemma attempt_probe_ok:
  "getBlockNumber (env (length s) url) = Inr b \<Longrightarrow>
   attempt env fn url s = fn url (s @ [(url, GetBlockNumber)])"
  by (simp add: attempt_def p_getBlockNumber_def rpc_def)

lemma pool_skips_dead:
  assumes "\<forall>i<length urls. getBlockNumber (env (length s + i) (urls ! i)) = Inl (errs i)"
  shows "withAnyProviderFrom msg (urls @ rest) env fn lastErr s =
         withAnyProviderFrom msg rest env fn
           (if urls = [] then lastErr else Some (errs (length urls - 1))) (s @ probes urls)"
  using assms
proof (induction urls arbitrary: s lastErr errs)
  case Nil
  then show ?case by (simp add: probes_def)
next
  case (Cons u us)
  from Cons.prems have h0: "getBlockNumber (env (length s) u) = Inl (errs 0)"
    by force
  have hs: "\<forall>i<length us.
      getBlockNumber (env (length (s @ [(u, GetBlockNumber)]) + i) (us ! i)) = Inl ((errs \<circ> Suc) i)"
  proof (intro allI impI)
    fix i assume "i < length us"
    then have "Suc i < length (u # us)" by simp
    with Cons.prems have "getBlockNumber (env (length s + Suc i) ((u # us) ! Suc i)) = Inl (errs (Suc i))"
      by blast
    then show "getBlockNumber (env (length (s @ [(u, GetBlockNumber)]) + i) (us ! i)) = Inl ((errs \<circ> Suc) i)"
      by simp
  qed
  have step: "withAnyProviderFrom msg ((u # us) @ rest) env fn lastErr s =
      withAnyProviderFrom msg (us @ rest) env fn (Some (errs 0)) (s @ [(u, GetBlockNumber)])"
    using attempt_probe_fails [of env s u "errs 0" fn] h0 by simp
  have "withAnyProviderFrom msg (us @ rest) env fn (Some (errs 0)) (s @ [(u, GetBlockNumber)]) =
      withAnyProviderFrom msg rest env fn
        (if us = [] then Some (errs 0) else Some ((errs \<circ> Suc) (length us - 1)))
        ((s @ [(u, GetBlockNumber)]) @ probes us)"
    by (rule Cons.IH [OF hs])
  also have "(if us = [] then Some (errs 0) else Some ((errs \<circ> Suc) (length us - 1))) =
      Some (errs (length (u # us) - 1))"
    by (cases us) simp_all
  finally show ?case
    using step by (simp add: probes_def)
qed

text \<open>
  C7. For every ordered list of providers: when the first \<open>N - 1\<close> fail their liveness
  probe and the probe of the \<open>N\<close>-th succeeds, the pool returns what the operation
  returns on the \<open>N\<close>-th (and, should the operation throw there, fails with that
  error); when all \<open>N\<close> fail their probe, the pool fails with the last error observed;
  the error of its own stands only for an empty list.
\<close>

theorem withAnyProvider_failover:
  "(\<forall>i<length dead. getBlockNumber (env (length s + i) (dead ! i)) = Inl (errs i)) \<longrightarrow>
     (getBlockNumber (env (length s + length dead) u) = Inr b \<and>
      fn u (s @ probes dead @ [(u, GetBlockNumber)]) = (Inr v, s')
        \<longrightarrow> withAnyProviderFrom msg (dead @ [u]) env fn None s = (Inr v, s')) \<and>
     (getBlockNumber (env (length s + length dead) u) = Inr b \<and>
      fn u (s @ probes dead @ [(u, GetBlockNumber)]) = (Inl e, s')
        \<longrightarrow> withAnyProviderFrom msg (dead @ [u]) env fn None s = (Inl e, s')) \<and>
     (dead \<noteq> []
        \<longrightarrow> withAnyProviderFrom msg dead env fn None s =
            (Inl (errs (length dead - 1)), s @ probes dead)) \<and>
     (dead = []
        \<longrightarrow> withAnyProviderFrom msg dead env fn None s = (Inl (Error msg), s))"
proof (intro impI conjI)
  assume dead: "\<forall>i<length dead. getBlockNumber (env (length s + i) (dead ! i)) = Inl (errs i)"
  have skip: "\<And>rest. withAnyProviderFrom msg (dead @ rest) env fn None s =
      withAnyProviderFrom msg rest env fn
        (if dead = [] then None else Some (errs (length dead - 1))) (s @ probes dead)"
    by (rule pool_skips_dead [OF dead])
  have len: "length (s @ probes dead) = length s + length dead"
    by (simp add: probes_def)
  {
    fix r
    assume "getBlockNumber (env (length s + length dead) u) = Inr b \<and>
      fn u (s @ probes dead @ [(u, GetBlockNumber)]) = r"
    then have "attempt env fn u (s @ probes dead) = r"
      using attempt_probe_ok [of env "s @ probes dead" u b fn] len by simp
  } note att = this
  show "withAnyProviderFrom msg (dead @ [u]) env fn None s = (Inr v, s')"
    if "getBlockNumber (env (length s + length dead) u) = Inr b \<and>
      fn u (s @ probes dead @ [(u, GetBlockNumber)]) = (Inr v, s')"
    using att [OF that] by (simp add: skip)
  show "withAnyProviderFrom msg (dead @ [u]) env fn None s = (Inl e, s')"
    if "getBlockNumber (env (length s + length dead) u) = Inr b \<and>
      fn u (s @ probes dead @ [(u, GetBlockNumber)]) = (Inl e, s')"
    using att [OF that] by (simp add: skip)
  show "withAnyProviderFrom msg dead env fn None s =
      (Inl (errs (length dead - 1)), s @ probes dead)" if "dead \<noteq> []"
    using skip [of "[]"] that by simp
  show "withAnyProviderFrom msg dead env fn None s = (Inl (Error msg), s)" if "dead = []"
    using that by simp
qed

theorem withAnyProvider_failover_witness:
  "withAnyProvider lastUp (p_getNetwork lastUp) [] =
     (Inr \<lparr>chainId = 8453\<rparr>, probes RPC_URLS @ [(''https://1rpc.io/base'', GetNetwork)]) \<and>
   withAnyProvider allDown (p_getNetwork allDown) [] = (Inl (Error ''timeout''), probes RPC_URLS)"
proof -
  let ?dead = "[''https://base.publicnode.com'', ''https://mainnet.base.org'',
      ''https://base.llamarpc.com'']"
  let ?u = "''https://1rpc.io/base''"
  have urls: "RPC_URLS = ?dead @ [?u]"
    by (simp add: RPC_URLS_def)
  have d3: "\<forall>i<length ?dead. getBlockNumber (lastUp (length ([]::trace) + i) (?dead ! i)) =
      Inl (Error ''timeout'')"
    by (simp add: lastUp_def downNode_def nth_Cons' less_Suc_eq numeral_3_eq_3)
  have up: "getBlockNumber (lastUp (length ([]::trace) + length ?dead) ?u) = Inr 100"
    by (simp add: lastUp_def shopNode_def)
  have op: "p_getNetwork lastUp ?u ([] @ probes ?dead @ [(?u, GetBlockNumber)]) =
      (Inr \<lparr>chainId = 8453\<rparr>, probes RPC_URLS @ [(?u, GetNetwork)])"
    by (simp add: p_getNetwork_def rpc_def lastUp_def shopNode_def probes_def RPC_URLS_def)
  have d4: "\<forall>i<length RPC_URLS. getBlockNumber (allDown (length ([]::trace) + i) (RPC_URLS ! i)) =
      Inl (Error ''timeout'')"
    by (simp add: allDown_def downNode_def)
  have ne: "RPC_URLS \<noteq> []"
    by (simp add: RPC_URLS_def)
  from withAnyProvider_failover [of ?dead lastUp "[]" "\<lambda>i. Error ''timeout''" ?u 100
      "p_getNetwork lastUp" "\<lparr>chainId = 8453\<rparr>" "probes RPC_URLS @ [(?u, GetNetwork)]"
      "''All providers failed''"] d3 up op
  have one: "withAnyProviderFrom ''All providers failed'' (?dead @ [?u]) lastUp (p_getNetwork lastUp)
      None [] = (Inr \<lparr>chainId = 8453\<rparr>, probes RPC_URLS @ [(?u, GetNetwork)])"
    by blast
  from withAnyProvider_failover [of RPC_URLS allDown "[]" "\<lambda>i. Error ''timeout''" ?u 100
      "p_getNetwork allDown" "\<lparr>chainId = 8453\<rparr>" "[]" "''All providers failed''"] d4 ne
  have two: "withAnyProviderFrom ''All providers failed'' RPC_URLS allDown (p_getNetwork allDown)
      None [] = (Inl (Error ''timeout''), [] @ probes RPC_URLS)"
    by blast
  from one have "withAnyProviderFrom ''All providers failed'' RPC_URLS lastUp (p_getNetwork lastUp)
      None [] = (Inr \<lparr>chainId = 8453\<rparr>, probes RPC_URLS @ [(?u, GetNetwork)])"
    by (simp only: urls [symmetric])
  with two show ?thesis
    by (simp add: withAnyProvider_def)
qed

section \<open>The paid amount is the sum of the qualifying transfers\<close>

lemma lower_USDC_nonempty: "toLowerCase USDC_BASE \<noteq> []"
  by (simp add: toLowerCase_def USDC_BASE_def)

lemma paidLoop_sum: "paidLoop L logs tot = tot + paidSpec L logs"
proof (induction logs arbitrary: tot)
  case Nil
  then show ?case by (simp add: paidSpec_def)
next
  case (Cons log logs)
  have spec_cons: "paidSpec L (log # logs) =
      (if qualifying L log then amountOf L log else 0) + paidSpec L logs"
    by (simp add: paidSpec_def)
  show ?case
  proof (cases "log_address log")
    case None
    then show ?thesis
      by (simp add: Cons.IH spec_cons qualifying_def fromStablecoin_def)
  next
    case (Some a)
    show ?thesis
    proof (cases "toLowerCase a = toLowerCase USDC_BASE")
      case False
      with Some show ?thesis
        by (simp add: Cons.IH spec_cons qualifying_def fromStablecoin_def)
    next
      case True
      with lower_USDC_nonempty have ne: "a \<noteq> []"
        by (auto simp: toLowerCase_def)
      from Some True ne show ?thesis
        by (simp add: Cons.IH spec_cons qualifying_def fromStablecoin_def inboundAmount_def
            amountOf_def split: parse_result.splits log_description.splits)
    qed
  qed
qed

lemma getPaid_spec: "getPaidAmountFromLogs L logs = paidSpec L logs"
  by (simp add: getPaidAmountFromLogs_def paidLoop_sum)

lemma inbound_replaceSenders: "inboundAmount (replaceSenders f L) log = inboundAmount L log"
  by (simp add: inboundAmount_def replaceSenders_def withSender_def
      split: parse_result.splits log_description.splits)

lemma paidSpec_replaceSenders: "paidSpec (replaceSenders f L) logs = paidSpec L logs"
proof -
  have "qualifying (replaceSenders f L) = qualifying L"
    by (rule ext) (simp add: qualifying_def inbound_replaceSenders)
  moreover have "amountOf (replaceSenders f L) = amountOf L"
    by (rule ext) (simp add: amountOf_def inbound_replaceSenders)
  ultimately show ?thesis
    by (simp add: paidSpec_def)
qed

lemma paidSpec_filter: "paidSpec L (filter (qualifying L) logs) = paidSpec L logs"
  by (simp add: paidSpec_def)

lemma paidSpec_rejected: "paidSpec L (filter (\<lambda>log. \<not> qualifying L log) logs) = 0"
  by (simp add: paidSpec_def)

text \<open>
  C3. For every list of logs, the paid amount is the sum of the amounts of the logs that
  the stablecoin contract emitted (addresses compared in lower case) and that decode as
  a transfer to the payment address (compared in lower case). The logs that fail either
  condition add nothing, dropping them changes nothing, and so does replacing the sender
  of every decoded transfer.
\<close>

theorem getPaidAmountFromLogs_sum:
  "getPaidAmountFromLogs L logs = sum_list (map (amountOf L) (filter (qualifying L) logs)) \<and>
   getPaidAmountFromLogs L (filter (\<lambda>log. \<not> qualifying L log) logs) = 0 \<and>
   getPaidAmountFromLogs L (filter (qualifying L) logs) = getPaidAmountFromLogs L logs \<and>
   getPaidAmountFromLogs (replaceSenders f L) logs = getPaidAmountFromLogs L logs"
  using paidSpec_rejected [of L logs]
  by (simp add: getPaid_spec paidSpec_filter paidSpec_replaceSenders) (simp add: paidSpec_def)

section \<open>The receipt path of the verifier\<close>

lemma settle_exact:
  "settle L PRICE_USDC_UNITS c p =
     \<lparr>ok = True, status = CONFIRMED, paidUSDC = Some (toUSDC L 3000000), message = c\<rparr>"
  by (simp add: settle_def PRICE_USDC_UNITS_def)

lemma settle_short:
  "settle L (PRICE_USDC_UNITS - 1) c p =
     \<lparr>ok = True, status = PENDING, paidUSDC = Some (toUSDC L 2999999), message = p\<rparr>"
  by (simp add: settle_def PRICE_USDC_UNITS_def)

lemma verify_receipt_path:
  assumes "withAnyProvider_v env (p_getNetwork env) s = (Inr net, s1)"
    and "chainId net = BASE_CHAIN_ID"
    and "withAnyProvider_v env (p_getTransactionReceipt env h) s1 = (Inr (Some rc), s2)"
    and "rc_status rc = Some 1"
  shows "verify L env h s =
      (Inr (settle L (paidSpec L (rc_logs rc)) ''Payment confirmed.''
              ''Transaction found, but payment not detected yet.''), s2)"
  using assms by (simp add: verify_def tryReceipt_def getPaid_spec)

lemma verify_mc_receipt_path:
  assumes "withAnyProvider_v env (p_getNetwork env) s = (Inr net, s1)"
    and "chainId net = BASE_CHAIN_ID"
    and "withAnyProvider_v env (p_getTransactionReceipt env h) s1 = (Inr (Some rc), s2)"
    and "rc_status rc = Some 1"
    and "withAnyProvider_v env (p_getBlockNumber env) s2 = (Inr latestBlock, s3)"
  shows "verify_mc L env h s =
      (if latestBlock - rc_blockNumber rc + 1 < MIN_CONFIRMATIONS
       then (Inr \<lparr>ok = True, status = PENDING, paidUSDC = None,
                  message = ''Waiting for confirmations.''\<rparr>, s3)
       else (Inr (settle L (paidSpec L (rc_logs rc)) ''Payment confirmed.''
              ''Transaction found, but payment not detected yet.''), s3))"
  using assms by (simp add: verify_mc_def tryReceipt_def getPaid_spec)

section \<open>The routes on the scenarios\<close>

lemmas trim_eval = trim_def trimStart_def trimEnd_def whiteSpace_def

lemmas pool_eval = withAnyProvider_def withAnyProvider_v_def RPC_URLS_def attempt_def
  p_getBlockNumber_def p_getNetwork_def p_getTransaction_def p_getTransactionReceipt_def
  p_getLogs_def rpc_def

lemma shop_network:
  "withAnyProvider_v shop (p_getNetwork shop) s =
     (Inr \<lparr>chainId = 8453\<rparr>,
      s @ [(''https://base.publicnode.com'', GetBlockNumber),
           (''https://base.publicnode.com'', GetNetwork)])"
  by (simp add: pool_eval shop_def shopNode_def)

lemma shop_receipt_payA:
  "withAnyProvider_v shop (p_getTransactionReceipt shop payA) s =
     (Inr (Some (successReceipt [payLog ''3000000''])),
      s @ [(''https://base.publicnode.com'', GetBlockNumber),
           (''https://base.publicnode.com'', GetTransactionReceipt payA)])"
  by (simp add: pool_eval shop_def shopNode_def payA_def txH_def)

lemma shop_receipt_payS:
  "withAnyProvider_v shop (p_getTransactionReceipt shop payS) s =
     (Inr (Some (successReceipt [payLog ''2999999''])),
      s @ [(''https://base.publicnode.com'', GetBlockNumber),
           (''https://base.publicnode.com'', GetTransactionReceipt payS)])"
  by (simp add: pool_eval shop_def shopNode_def payA_def txH_def payS_def)

lemma lagging_network:
  "withAnyProvider_v lagging (p_getNetwork lagging) s =
     (Inr \<lparr>chainId = 8453\<rparr>,
      s @ [(''https://base.publicnode.com'', GetBlockNumber),
           (''https://base.publicnode.com'', GetNetwork)])"
  by (simp add: pool_eval lagging_def shopNode_def)

lemma lagging_receipt_payA:
  "withAnyProvider_v lagging (p_getTransactionReceipt lagging payA) s =
     (Inr (Some (successReceipt [payLog ''3000000''])),
      s @ [(''https://base.publicnode.com'', GetBlockNumber),
           (''https://base.publicnode.com'', GetTransactionReceipt payA)])"
  by (simp add: pool_eval lagging_def shopNode_def payA_def txH_def)

lemma lagging_height:
  "withAnyProvider_v lagging (p_getBlockNumber lagging) s =
     (Inr 89,
      s @ [(''https://base.publicnode.com'', GetBlockNumber),
           (''https://base.publicnode.com'', GetBlockNumber)])"
  by (simp add: pool_eval lagging_def shopNode_def)

lemma wrongChain_network:
  "withAnyProvider_v wrongChain (p_getNetwork wrongChain) s =
     (Inr \<lparr>chainId = 1\<rparr>,
      s @ [(''https://base.publicnode.com'', GetBlockNumber),
           (''https://base.publicnode.com'', GetNetwork)])"
  by (simp add: pool_eval wrongChain_def shopNode_def)

lemma payLog_qualifies: "qualifying demoLib (payLog d)"
  by (simp add: qualifying_def fromStablecoin_def inboundAmount_def payLog_def demoLib_def
      demoParse_def toLowerCase_def lowerChar_def USDC_BASE_def PAYMENT_ADDRESS_def)

lemma payLog_amount: "amountOf demoLib (payLog d) = readNat d"
  by (simp add: amountOf_def inboundAmount_def payLog_def demoLib_def
      demoParse_def toLowerCase_def lowerChar_def PAYMENT_ADDRESS_def)

lemma read_price: "readNat ''3000000'' = 3000000" "readNat ''2999999'' = 2999999"
  by (simp_all add: readNat_def digitVal_def)

section \<open>The threshold\<close>

text \<open>
  C2. When the network check passes and the receipt is there with a successful status:
  if the qualifying transfers of the receipt sum to exactly 3000000 units, \<open>verify\<close>
  answers CONFIRMED; if they sum to 2999999, it answers PENDING and attaches that sum.
\<close>

theorem verify_threshold:
  assumes "withAnyProvider_v env (p_getNetwork env) s = (Inr net, s1)"
    and "chainId net = BASE_CHAIN_ID"
    and "withAnyProvider_v env (p_getTransactionReceipt env h) s1 = (Inr (Some rc), s2)"
    and "rc_status rc = Some 1"
  shows "(sum_list (map (amountOf L) (filter (qualifying L) (rc_logs rc))) = 3000000 \<longrightarrow>
           verify L env h s =
             (Inr \<lparr>ok = True, status = CONFIRMED, paidUSDC = Some (toUSDC L 3000000),
                   message = ''Payment confirmed.''\<rparr>, s2)) \<and>
         (sum_list (map (amountOf L) (filter (qualifying L) (rc_logs rc))) = 2999999 \<longrightarrow>
           verify L env h s =
             (Inr \<lparr>ok = True, status = PENDING, paidUSDC = Some (toUSDC L 2999999),
                   message = ''Transaction found, but payment not detected yet.''\<rparr>, s2))"
  using verify_receipt_path [OF assms, of L] settle_exact [of L] settle_short [of L]
  by (simp add: paidSpec_def PRICE_USDC_UNITS_def)

theorem verify_threshold_witness:
  "fst (verify demoLib shop payA []) =
     Inr \<lparr>ok = True, status = CONFIRMED, paidUSDC = Some ''3.000000'',
          message = ''Payment confirmed.''\<rparr> \<and>
   fst (verify demoLib shop payS []) =
     Inr \<lparr>ok = True, status = PENDING, paidUSDC = Some ''2.999999'',
          message = ''Transaction found, but payment not detected yet.''\<rparr>"
proof -
  have net: "chainId \<lparr>chainId = 8453\<rparr> = BASE_CHAIN_ID"
    by (simp add: BASE_CHAIN_ID_def)
  have st: "\<And>logs. rc_status (successReceipt logs) = Some 1"
    by (simp add: successReceipt_def)
  have sumA: "sum_list (map (amountOf demoLib)
      (filter (qualifying demoLib) (rc_logs (successReceipt [payLog ''3000000''])))) = 3000000"
    by (simp add: successReceipt_def payLog_qualifies payLog_amount read_price)
  have sumS: "sum_list (map (amountOf demoLib)
      (filter (qualifying demoLib) (rc_logs (successReceipt [payLog ''2999999''])))) = 2999999"
    by (simp add: successReceipt_def payLog_qualifies payLog_amount read_price)
  have fmt: "toUSDC demoLib 3000000 = ''3.000000''" "toUSDC demoLib 2999999 = ''2.999999''"
    by (simp_all add: demoLib_def)
  from verify_threshold [OF shop_network net shop_receipt_payA st, of demoLib]
    verify_threshold [OF shop_network net shop_receipt_payS st, of demoLib]
  show ?thesis
    using sumA sumS fmt by simp
qed

section \<open>Confirmation depth\<close>

text \<open>
  C6. In the verifier that configures \<open>MIN_CONFIRMATIONS\<close>: when the network check
  passes, the receipt is there with a successful status, and the height the pool reports
  gives a depth (height - block of the receipt + 1) below the minimum, the answer is
  PENDING, whatever the receipt pays.
\<close>

theorem verify_mc_unconfirmed:
  assumes "withAnyProvider_v env (p_getNetwork env) s = (Inr net, s1)"
    and "chainId net = BASE_CHAIN_ID"
    and "withAnyProvider_v env (p_getTransactionReceipt env h) s1 = (Inr (Some rc), s2)"
    and "rc_status rc = Some 1"
    and "withAnyProvider_v env (p_getBlockNumber env) s2 = (Inr latestBlock, s3)"
    and "latestBlock - rc_blockNumber rc + 1 < MIN_CONFIRMATIONS"
  shows "verify_mc L env h s =
      (Inr \<lparr>ok = True, status = PENDING, paidUSDC = None,
            message = ''Waiting for confirmations.''\<rparr>, s3)"
  using verify_mc_receipt_path [OF assms(1-5), of L] assms(6) by simp

theorem verify_mc_unconfirmed_witness:
  "89 - rc_blockNumber (successReceipt [payLog ''3000000'']) + 1 < MIN_CONFIRMATIONS \<and>
   fst (verify_mc demoLib lagging payA []) =
     Inr \<lparr>ok = True, status = PENDING, paidUSDC = None,
          message = ''Waiting for confirmations.''\<rparr>"
proof -
  have net: "chainId \<lparr>chainId = 8453\<rparr> = BASE_CHAIN_ID"
    by (simp add: BASE_CHAIN_ID_def)
  have st: "rc_status (successReceipt [payLog ''3000000'']) = Some 1"
    by (simp add: successReceipt_def)
  have depth: "89 - rc_blockNumber (successReceipt [payLog ''3000000'']) + 1 < MIN_CONFIRMATIONS"
    by (simp add: successReceipt_def MIN_CONFIRMATIONS_def)
  from verify_mc_unconfirmed [OF lagging_network net lagging_receipt_payA st lagging_height depth,
      of demoLib]
  show ?thesis
    using depth by simp
qed

text \<open>
  The verifier of \<^verbatim>\<open>src/app/api/verify-payment/route.ts\<close> configures no minimum and asks
  for no height: on the same nodes it confirms the payment.
\<close>

lemma verify_asks_no_height:
  "verify demoLib lagging payA [] =
     (Inr \<lparr>ok = True, status = CONFIRMED, paidUSDC = Some ''3.000000'',
           message = ''Payment confirmed.''\<rparr>,
      [(''https://base.publicnode.com'', GetBlockNumber),
       (''https://base.publicnode.com'', GetNetwork),
       (''https://base.publicnode.com'', GetBlockNumber),
       (''https://base.publicnode.com'', GetTransactionReceipt payA)])"
proof -
  have net: "chainId \<lparr>chainId = 8453\<rparr> = BASE_CHAIN_ID"
    by (simp add: BASE_CHAIN_ID_def)
  have st: "rc_status (successReceipt [payLog ''3000000'']) = Some 1"
    by (simp add: successReceipt_def)
  have lg: "rc_logs (successReceipt [payLog ''3000000'']) = [payLog ''3000000'']"
    by (simp add: successReceipt_def)
  have paid: "paidSpec demoLib [payLog ''3000000''] = 3000000"
    by (simp add: paidSpec_def payLog_qualifies payLog_amount read_price)
  have fmt: "toUSDC demoLib 3000000 = ''3.000000''"
    by (simp add: demoLib_def)
  show ?thesis
    by (simp add: verify_receipt_path [OF lagging_network net lagging_receipt_payA st] lg paid
        settle_def PRICE_USDC_UNITS_def fmt)
qed

section \<open>The network check comes first\<close>

lemma attempt_network:
  "attempt env (p_getNetwork env) u s = (r, s') \<Longrightarrow>
   s' = s @ [(u, GetBlockNumber)] \<or> s' = s @ [(u, GetBlockNumber), (u, GetNetwork)]"
  by (auto simp: attempt_def p_getBlockNumber_def p_getNetwork_def rpc_def split: sum.splits)

lemma network_query_calls:
  "withAnyProviderFrom msg urls env (p_getNetwork env) lastErr s = (r, s') \<Longrightarrow>
   \<exists>cs. s' = s @ cs \<and> (\<forall>c\<in>set cs. snd c = GetBlockNumber \<or> snd c = GetNetwork)"
proof (induction urls arbitrary: lastErr s)
  case Nil
  then show ?case by simp
next
  case (Cons u us)
  obtain r1 s1 where a: "attempt env (p_getNetwork env) u s = (r1, s1)"
    by fastforce
  from attempt_network [OF a] obtain cs1 where cs1: "s1 = s @ cs1"
      "\<forall>c\<in>set cs1. snd c = GetBlockNumber \<or> snd c = GetNetwork"
    by auto
  show ?case
  proof (cases r1)
    case (Inl e)
    with a Cons.prems have "withAnyProviderFrom msg us env (p_getNetwork env) (Some e) s1 = (r, s')"
      by simp
    from Cons.IH [OF this] cs1 show ?thesis by auto
  next
    case (Inr v)
    with a Cons.prems have "s' = s1" by simp
    with cs1 show ?thesis by blast
  qed
qed

text \<open>
  C4. When the network identifier the pool obtains is not 8453, both verifiers answer
  FAILED, whatever the nodes hold for the reference. The trace they return is the trace
  at the end of the network check, and the calls issued since the start are probes and
  network queries only: no transaction, receipt or log query.
\<close>

theorem verify_wrong_network:
  assumes "withAnyProvider_v env (p_getNetwork env) s = (Inr net, s1)"
    and "chainId net \<noteq> BASE_CHAIN_ID"
  shows "verify L env h s =
           (Inr \<lparr>ok = False, status = FAILED, paidUSDC = None,
                 message = ''Wrong network. Payment must be on Base.''\<rparr>, s1) \<and>
         verify_mc L env h s =
           (Inr \<lparr>ok = False, status = FAILED, paidUSDC = None,
                 message = ''Wrong network. Payment must be on Base.''\<rparr>, s1) \<and>
         take (length s) s1 = s \<and>
         filter (\<lambda>c. isTxQuery (snd c)) (drop (length s) s1) = []"
proof -
  from assms(1) obtain cs where cs: "s1 = s @ cs"
      "\<forall>c\<in>set cs. snd c = GetBlockNumber \<or> snd c = GetNetwork"
    using network_query_calls [of "''All RPC providers failed''" RPC_URLS env None s "Inr net" s1]
    by (auto simp: withAnyProvider_v_def)
  from cs(2) have "filter (\<lambda>c. isTxQuery (snd c)) cs = []"
    by (auto simp: filter_empty_conv isTxQuery_def)
  with cs(1) assms show ?thesis
    by (simp add: verify_def verify_mc_def)
qed

theorem verify_wrong_network_witness:
  "chainId \<lparr>chainId = 1\<rparr> \<noteq> BASE_CHAIN_ID \<and>
   verify demoLib wrongChain payA [] =
     (Inr \<lparr>ok = False, status = FAILED, paidUSDC = None,
           message = ''Wrong network. Payment must be on Base.''\<rparr>,
      [(''https://base.publicnode.com'', GetBlockNumber),
       (''https://base.publicnode.com'', GetNetwork)])"
proof -
  have net: "chainId \<lparr>chainId = 1\<rparr> \<noteq> BASE_CHAIN_ID"
    by (simp add: BASE_CHAIN_ID_def)
  from verify_wrong_network [OF wrongChain_network net, of demoLib payA "[]"]
  show ?thesis
    using net by simp
qed

section \<open>Validation of the hashes\<close>

lemma trim_padded:
  "trim (orEmpty (Some (txH @ '' ''))) = txH"
  "trim (orEmpty (Some (payA @ '' ''))) = payA"
  "trim (orEmpty (Some (payA @ [CHR 0xC2, CHR 0xA0]))) = payA"
  "trim (orEmpty (Some ([CHR 0xEF, CHR 0xBB, CHR 0xBF] @ txH))) = txH"
  "trim (orEmpty (Some (payA @ [CHR 0xE3, CHR 0x80, CHR 0x80]))) = payA"
  by (simp_all add: trim_eval orEmpty_def txH_def payA_def)

lemma hashes_ok:
  "isTxHash txH" "isTxHash payA" "isTxHash payB" "isTxHash payC" "isTxHash payD" "isTxHash payS"
  by (simp_all add: isTxHash_def isHexDigit_def txH_def payA_def payB_def payC_def payD_def
      payS_def)

lemma shop_tx_txH:
  "withAnyProvider shop (p_getTransaction shop txH) s =
     (Inr (Some ethTx),
      s @ [(''https://base.publicnode.com'', GetBlockNumber),
           (''https://base.publicnode.com'', GetTransaction txH)])"
  by (simp add: pool_eval shop_def shopNode_def)

lemma shop_rc_txH:
  "withAnyProvider shop (p_getTransactionReceipt shop txH) s =
     (Inr (Some (successReceipt [approvalLog, payLog ''12''])),
      s @ [(''https://base.publicnode.com'', GetBlockNumber),
           (''https://base.publicnode.com'', GetTransactionReceipt txH)])"
  by (simp add: pool_eval shop_def shopNode_def)

lemma demo_addresses:
  "normAddress demoLib (tx_from ethTx) = Inr (Some payer)"
  "normAddress demoLib (tx_to ethTx) = Inr (Some otherToken)"
  by (simp_all add: normAddress_def demoLib_def ethTx_def payer_def otherToken_def)

lemma explain_GET_analysed:
  assumes "trim (orEmpty p) = tx" and "isTxHash tx"
    and "withAnyProvider env (p_getTransaction env tx) s = (Inr (Some t), s1)"
    and "withAnyProvider env (p_getTransactionReceipt env tx) s1 = (Inr (Some rc), s2)"
    and "normAddress L (tx_from t) = Inr a" and "normAddress L (tx_to t) = Inr b"
  shows "explain_GET L env p s =
      (\<lparr>summary = summaryOf t, fee = None,
        explanation = joinLines (explanationLines a b (classify L (rc_logs rc))),
        basescan = basescanUrl tx, accessUnlocked = True\<rparr>, s2)"
proof -
  from assms(2) have "tx \<noteq> []"
    by (auto simp: isTxHash_def)
  with assms show ?thesis
    by (simp add: explain_GET_def)
qed

lemma demo_paid: "paidSpec demoLib [payLog d] = readNat d"
  by (simp add: paidSpec_def payLog_qualifies payLog_amount)

lemma demo_settle:
  "settle demoLib 3000000 c p =
     \<lparr>ok = True, status = CONFIRMED, paidUSDC = Some ''3.000000'', message = c\<rparr>"
  by (simp add: settle_def PRICE_USDC_UNITS_def demoLib_def)

lemma shop_verify_payA:
  "verify demoLib shop payA s =
     (Inr \<lparr>ok = True, status = CONFIRMED, paidUSDC = Some ''3.000000'',
           message = ''Payment confirmed.''\<rparr>,
      s @ [(''https://base.publicnode.com'', GetBlockNumber),
           (''https://base.publicnode.com'', GetNetwork),
           (''https://base.publicnode.com'', GetBlockNumber),
           (''https://base.publicnode.com'', GetTransactionReceipt payA)])"
proof -
  have net: "chainId \<lparr>chainId = 8453\<rparr> = BASE_CHAIN_ID"
    by (simp add: BASE_CHAIN_ID_def)
  have st: "rc_status (successReceipt [payLog ''3000000'']) = Some 1"
    by (simp add: successReceipt_def)
  have lg: "rc_logs (successReceipt [payLog ''3000000'']) = [payLog ''3000000'']"
    by (simp add: successReceipt_def)
  show ?thesis
    by (simp add: verify_receipt_path [OF shop_network net shop_receipt_payA st] lg demo_paid
        read_price demo_settle)
qed

text \<open>
  As stated, for every string that does not match the pattern, the claim fails: the
  routes trim the parameter before they test it, so a hash followed by a space or by a
  no-break space (U+00A0), which does not match, is analysed or verified over the
  network.
\<close>

theorem reject_unmatched_counterexample:
  "\<not> isTxHash (txH @ '' '') \<and>
   summary (fst (explain_GET demoLib shop (Some (txH @ '' '')) [])) = ''ETH transfer'' \<and>
   snd (explain_GET demoLib shop (Some (txH @ '' '')) []) =
     [(''https://base.publicnode.com'', GetBlockNumber),
      (''https://base.publicnode.com'', GetTransaction txH),
      (''https://base.publicnode.com'', GetBlockNumber),
      (''https://base.publicnode.com'', GetTransactionReceipt txH)] \<and>
   \<not> isTxHash (payA @ '' '') \<and>
   fst (verifyPayment_GET demoLib shop (Some (payA @ '' '')) []) =
     Inr \<lparr>http_status = 200,
          body = \<lparr>ok = True, status = CONFIRMED, paidUSDC = Some ''3.000000'',
                  message = ''Payment confirmed.''\<rparr>\<rparr> \<and>
   \<not> isTxHash (payA @ [CHR 0xC2, CHR 0xA0]) \<and>
   fst (verifyPayment_GET demoLib shop (Some (payA @ [CHR 0xC2, CHR 0xA0])) []) =
     Inr \<lparr>http_status = 200,
          body = \<lparr>ok = True, status = CONFIRMED, paidUSDC = Some ''3.000000'',
                  message = ''Payment confirmed.''\<rparr>\<rparr>"
proof -
  have n1: "\<not> isTxHash (txH @ '' '')" "\<not> isTxHash (payA @ '' '')"
      "\<not> isTxHash (payA @ [CHR 0xC2, CHR 0xA0])"
    by (simp_all add: isTxHash_def txH_def payA_def)
  have e: "explain_GET demoLib shop (Some (txH @ '' '')) [] =
      (\<lparr>summary = summaryOf ethTx, fee = None,
        explanation = joinLines (explanationLines (Some payer) (Some otherToken)
          (classify demoLib (rc_logs (successReceipt [approvalLog, payLog ''12''])))),
        basescan = basescanUrl txH, accessUnlocked = True\<rparr>,
        [] @ [(''https://base.publicnode.com'', GetBlockNumber),
           (''https://base.publicnode.com'', GetTransaction txH)] @
        [(''https://base.publicnode.com'', GetBlockNumber),
           (''https://base.publicnode.com'', GetTransactionReceipt txH)])"
    by (rule explain_GET_analysed [OF trim_padded(1) hashes_ok(1) shop_tx_txH _ demo_addresses])
      (simp add: shop_rc_txH)
  have s: "summaryOf ethTx = ''ETH transfer''"
    by (simp add: summaryOf_def isEthTransfer_def ethTx_def)
  have g: "fst (verifyPayment_GET demoLib shop (Some (payA @ '' '')) []) =
     Inr \<lparr>http_status = 200,
          body = \<lparr>ok = True, status = CONFIRMED, paidUSDC = Some ''3.000000'',
                  message = ''Payment confirmed.''\<rparr>\<rparr>"
    by (simp add: verifyPayment_GET_def verifyHandler_def trim_padded hashes_ok shop_verify_payA)
  have h: "fst (verifyPayment_GET demoLib shop (Some (payA @ [CHR 0xC2, CHR 0xA0])) []) =
     Inr \<lparr>http_status = 200,
          body = \<lparr>ok = True, status = CONFIRMED, paidUSDC = Some ''3.000000'',
                  message = ''Payment confirmed.''\<rparr>\<rparr>"
    by (simp add: verifyPayment_GET_def verifyHandler_def trim_padded hashes_ok shop_verify_payA)
  from n1 e s g h show ?thesis by simp
qed

text \<open>
  Every string whose trimmed value is a hash passes the validation: the verifier is
  asked about the trimmed value.
\<close>

lemma trimmed_hash_is_verified:
  "isTxHash (trim raw) \<Longrightarrow>
   verifyHandler vfy raw s =
     (case vfy (trim raw) s of
        (Inl e, s1) \<Rightarrow> (Inl e, s1)
      | (Inr r, s1) \<Rightarrow> (Inr \<lparr>http_status = 200, body = r\<rparr>, s1))"
  by (simp add: verifyHandler_def)

text \<open>A POST whose body is the JSON \<^verbatim>\<open>null\<close> throws before any call.\<close>

lemma post_null_body_throws:
  "verifyPayment_POST L env JsonNull s =
     (Inl (Error ''TypeError: Cannot read properties of null''), s)"
  "verifyPayment_mc_POST L env JsonNull s =
     (Inl (Error ''TypeError: Cannot read properties of null''), s)"
  by (simp_all add: verifyPayment_POST_def verifyPayment_mc_POST_def verifyHandler_POST_def
      bodyTxHash_def)

text \<open>
  C5, amended. For every input string whose trimmed value does not match the pattern of
  a hash, no call is issued (the trace is returned as it was): both explain routes answer
  their placeholder, with the unlock flag false, and the verify-payment handlers answer
  status 400 with FAILED, for the string as a parameter of GET and as the
  \<^verbatim>\<open>txHash\<close> that POST reads from its body.
\<close>

theorem reject_unmatched:
  assumes "\<not> isTxHash (trim (orEmpty p))"
  shows "explain_GET L env p s = (placeholder (trim (orEmpty p)), s) \<and>
         explain_pay_GET L env p q s = (placeholder_pay (trim (orEmpty p)), s) \<and>
         accessUnlocked (placeholder (trim (orEmpty p))) = False \<and>
         accessUnlocked (placeholder_pay (trim (orEmpty p))) = False \<and>
         verifyPayment_GET L env p s =
           (Inr \<lparr>http_status = 400,
                 body = \<lparr>ok = False, status = FAILED, paidUSDC = None,
                         message = ''Invalid tx hash.''\<rparr>\<rparr>, s) \<and>
         verifyPayment_mc_GET L env p s = verifyPayment_GET L env p s \<and>
         (bodyTxHash b = Inr (orEmpty p) \<longrightarrow>
            verifyPayment_POST L env b s = verifyPayment_GET L env p s \<and>
            verifyPayment_mc_POST L env b s = verifyPayment_GET L env p s)"
  using assms
  by (simp add: explain_GET_def explain_pay_GET_def placeholder_def placeholder_pay_def
      verifyPayment_GET_def verifyPayment_POST_def verifyPayment_mc_GET_def
      verifyPayment_mc_POST_def verifyHandler_def verifyHandler_POST_def)

theorem reject_unmatched_witness:
  "\<not> isTxHash (trim (orEmpty (Some ''  0x12 ''))) \<and>
   explain_pay_GET demoLib shop (Some ''  0x12 '') (Some payA) [] = (placeholder_pay ''0x12'', []) \<and>
   fst (verifyPayment_GET demoLib shop (Some ''  0x12 '') []) =
     Inr \<lparr>http_status = 400,
          body = \<lparr>ok = False, status = FAILED, paidUSDC = None,
                  message = ''Invalid tx hash.''\<rparr>\<rparr> \<and>
   verifyPayment_POST demoLib shop (Json (Truthy ''  0x12 '')) [] =
     (Inr \<lparr>http_status = 400,
           body = \<lparr>ok = False, status = FAILED, paidUSDC = None,
                   message = ''Invalid tx hash.''\<rparr>\<rparr>, [])"
proof -
  have tr: "trim (orEmpty (Some ''  0x12 '')) = ''0x12''"
    by (simp add: trim_eval orEmpty_def)
  have bad: "\<not> isTxHash (trim (orEmpty (Some ''  0x12 '')))"
    by (simp add: tr isTxHash_def)
  have bd: "bodyTxHash (Json (Truthy ''  0x12 '')) = Inr (orEmpty (Some ''  0x12 ''))"
    by (simp add: bodyTxHash_def orEmpty_def)
  from reject_unmatched [OF bad, where L = demoLib and env = shop and q = "Some payA" and s = "[]"
      and b = "Json (Truthy ''  0x12 '')"]
    bad tr bd
  show ?thesis by simp
qed

section \<open>What the explain routes answer\<close>

lemma not_hash_empty: "\<not> isTxHash []"
  by (simp add: isTxHash_def)

lemma explain_pay_unlock:
  "accessUnlocked (fst (explain_pay_GET L env p q s)) =
     (isTxHash (trim (orEmpty p)) \<and>
      fst (decideUnlock (isPaymentConfirmed L env) (trim (orEmpty q)) s))"
proof (cases "isTxHash (trim (orEmpty p))")
  case False
  then show ?thesis
    by (simp add: explain_pay_GET_def placeholder_pay_def)
next
  case True
  with not_hash_empty have ne: "trim (orEmpty p) \<noteq> []"
    by auto
  obtain u s0 where d: "decideUnlock (isPaymentConfirmed L env) (trim (orEmpty q)) s = (u, s0)"
    by fastforce
  from True ne d show ?thesis
    by (simp add: explain_pay_GET_def Let_def noDetails_def notEnough_def
        split: prod.splits sum.splits option.splits)
qed

lemma explain_pay_analysed:
  assumes "trim (orEmpty p) = tx" and "isTxHash tx"
    and "decideUnlock (isPaymentConfirmed L env) (trim (orEmpty q)) s = (u, s0)"
    and "withAnyProvider env (p_getTransaction env tx) s0 = (Inr (Some t), s1)"
    and "withAnyProvider env (p_getTransactionReceipt env tx) s1 = (Inr rcpt, s2)"
    and "normAddress L (tx_from t) = Inr a" and "normAddress L (tx_to t) = Inr b"
  shows "explain_pay_GET L env p q s =
      (\<lparr>summary = summaryOf t, fee = Some (feeOf L rcpt),
        explanation = joinLines (explanationLines a b (statsOf L rcpt)),
        basescan = basescanUrl tx, accessUnlocked = u\<rparr>, s2)"
proof -
  from assms(2) have "tx \<noteq> []"
    by (auto simp: isTxHash_def)
  with assms show ?thesis
    by (simp add: explain_pay_GET_def)
qed

lemma shop_receipt_payB:
  "withAnyProvider shop (p_getTransactionReceipt shop payB) s =
     (Inr None,
      s @ [(''https://base.publicnode.com'', GetBlockNumber),
           (''https://base.publicnode.com'', GetTransactionReceipt payB)])"
  by (simp add: pool_eval shop_def shopNode_def payA_def payB_def payC_def payD_def payS_def txH_def)

lemma shop_receipt_payB_v:
  "withAnyProvider_v shop (p_getTransactionReceipt shop payB) s =
     (Inr None,
      s @ [(''https://base.publicnode.com'', GetBlockNumber),
           (''https://base.publicnode.com'', GetTransactionReceipt payB)])"
  by (simp add: pool_eval shop_def shopNode_def payA_def payB_def payC_def payD_def payS_def txH_def)

lemma shop_tx_payB:
  "withAnyProvider_v shop (p_getTransaction shop payB) s =
     (Inr (Some tokenTx),
      s @ [(''https://base.publicnode.com'', GetBlockNumber),
           (''https://base.publicnode.com'', GetTransaction payB)])"
  by (simp add: pool_eval shop_def shopNode_def payA_def payB_def txH_def)

lemma shop_logs:
  "withAnyProvider_v shop (p_getLogs shop f) s =
     (Inr [payLog ''3000000''],
      s @ [(''https://base.publicnode.com'', GetBlockNumber),
           (''https://base.publicnode.com'', GetLogs f)])"
  by (simp add: pool_eval shop_def shopNode_def)

lemma shop_receipt_payC:
  "withAnyProvider shop (p_getTransactionReceipt shop payC) s =
     (Inr (Some (successReceipt [brokenLog, payLog ''3000000''])),
      s @ [(''https://base.publicnode.com'', GetBlockNumber),
           (''https://base.publicnode.com'', GetTransactionReceipt payC)])"
  by (simp add: pool_eval shop_def shopNode_def payA_def payB_def payC_def payD_def payS_def txH_def)

lemma shop_receipt_payA_x:
  "withAnyProvider shop (p_getTransactionReceipt shop payA) s =
     (Inr (Some (successReceipt [payLog ''3000000''])),
      s @ [(''https://base.publicnode.com'', GetBlockNumber),
           (''https://base.publicnode.com'', GetTransactionReceipt payA)])"
  by (simp add: pool_eval shop_def shopNode_def payA_def txH_def)

lemma shop_verify_payB:
  "fst (verify demoLib shop payB []) =
     Inr \<lparr>ok = True, status = CONFIRMED, paidUSDC = Some ''3.000000'',
          message = ''Payment confirmed (logs fallback).''\<rparr>"
  by (simp add: verify_def shop_network BASE_CHAIN_ID_def tryReceipt_def shop_receipt_payB_v
      verifyFallback_def shop_tx_payB tokenTx_def shop_logs getPaid_spec demo_paid read_price
      demo_settle)

lemma isPaymentConfirmed_eq:
  "fst (isPaymentConfirmed L env payTx s) =
     Inr (isTxHash payTx \<and>
          (case fst (withAnyProvider env (p_getTransactionReceipt env payTx) s) of
             Inr (Some rc) \<Rightarrow>
               rc_status rc = Some 1 \<and> PRICE_USDC_UNITS \<le> getPaidAmountFromLogs L (rc_logs rc)
           | _ \<Rightarrow> False))"
  by (simp add: isPaymentConfirmed_def tryReceipt_def
      split: prod.splits sum.splits option.splits)

lemma decideUnlock_eq:
  "fst (decideUnlock check payTx s) = (payTx \<noteq> [] \<and> fst (check payTx s) = Inr True)"
  by (auto simp: decideUnlock_def split: prod.splits sum.splits)


lemma trim_hashes:
  "trim (orEmpty (Some txH)) = txH" "trim (orEmpty (Some payA)) = payA"
  "trim (orEmpty (Some payB)) = payB" "trim (orEmpty (Some payC)) = payC"
  "trim (orEmpty (Some payD)) = payD" "trim (orEmpty None) = []"
  by (simp_all add: trim_eval orEmpty_def txH_def payA_def payB_def payC_def
      payD_def)

lemma shop_tx_payA:
  "withAnyProvider shop (p_getTransaction shop payA) s =
     (Inr (Some tokenTx),
      s @ [(''https://base.publicnode.com'', GetBlockNumber),
           (''https://base.publicnode.com'', GetTransaction payA)])"
  by (simp add: pool_eval shop_def shopNode_def payA_def txH_def)

lemma demo_addresses_token:
  "normAddress demoLib (tx_from tokenTx) = Inr (Some payer)"
  "normAddress demoLib (tx_to tokenTx) = Inr (Some USDC_BASE)"
  by (simp_all add: normAddress_def demoLib_def tokenTx_def payer_def USDC_BASE_def)

lemma shop_confirms_payA:
  "isPaymentConfirmed demoLib shop payA s =
     (Inr True,
      s @ [(''https://base.publicnode.com'', GetBlockNumber),
           (''https://base.publicnode.com'', GetTransactionReceipt payA)])"
  by (simp add: isPaymentConfirmed_def hashes_ok tryReceipt_def shop_receipt_payA_x
      successReceipt_def getPaid_spec demo_paid read_price PRICE_USDC_UNITS_def)

text \<open>
  The references are trimmed as the targets are: a paying reference followed by an
  ideographic space (U+3000), with the target after a byte order mark (U+FEFF), unlocks.
\<close>

lemma padded_reference_unlocks:
  "accessUnlocked (fst (explain_pay_GET demoLib shop
      (Some ([CHR 0xEF, CHR 0xBB, CHR 0xBF] @ txH))
      (Some (payA @ [CHR 0xE3, CHR 0x80, CHR 0x80])) [])) = True"
proof -
  have ne: "payA \<noteq> []"
    using hashes_ok(2) not_hash_empty by auto
  have "accessUnlocked (fst (explain_pay_GET demoLib shop
      (Some ([CHR 0xEF, CHR 0xBB, CHR 0xBF] @ txH))
      (Some (payA @ [CHR 0xE3, CHR 0x80, CHR 0x80])) [])) =
    (isTxHash txH \<and> fst (decideUnlock (isPaymentConfirmed demoLib shop) payA []))"
    by (simp only: explain_pay_unlock trim_padded)
  with ne show ?thesis
    by (simp add: decideUnlock_eq hashes_ok shop_confirms_payA)
qed

section \<open>The summary\<close>

text \<open>
  C8. For a well-formed target hash whose transaction and receipt the pool returns (and
  whose sender and recipient \<^verbatim>\<open>ethers.getAddress\<close> accepts, as it does for the
  addresses of a record the provider returned), both explain routes answer the summary
  "ETH transfer" when the value is positive and the payload is \<^verbatim>\<open>"0x"\<close>, and
  "Contract interaction" otherwise; in the route that consults the payment reference
  this holds for every payment parameter and every outcome of the payment check.
\<close>

theorem explain_summary:
  assumes "trim (orEmpty p) = tx" and "isTxHash tx"
    and "normAddress L (tx_from t) = Inr a" and "normAddress L (tx_to t) = Inr b"
  shows "(withAnyProvider env (p_getTransaction env tx) s = (Inr (Some t), s1) \<and>
          withAnyProvider env (p_getTransactionReceipt env tx) s1 = (Inr (Some rc), s2) \<longrightarrow>
            summary (fst (explain_GET L env p s)) =
              (if (case tx_value t of None \<Rightarrow> 0 | Some v \<Rightarrow> v) > 0 \<and> tx_data t = ''0x''
               then ''ETH transfer'' else ''Contract interaction'')) \<and>
         (decideUnlock (isPaymentConfirmed L env) (trim (orEmpty q)) s = (u, s0) \<and>
          withAnyProvider env (p_getTransaction env tx) s0 = (Inr (Some t), s1') \<and>
          withAnyProvider env (p_getTransactionReceipt env tx) s1' = (Inr (Some rc), s2') \<longrightarrow>
            summary (fst (explain_pay_GET L env p q s)) =
              (if (case tx_value t of None \<Rightarrow> 0 | Some v \<Rightarrow> v) > 0 \<and> tx_data t = ''0x''
               then ''ETH transfer'' else ''Contract interaction''))"
proof (intro conjI impI)
  assume "withAnyProvider env (p_getTransaction env tx) s = (Inr (Some t), s1) \<and>
          withAnyProvider env (p_getTransactionReceipt env tx) s1 = (Inr (Some rc), s2)"
  then show "summary (fst (explain_GET L env p s)) =
      (if (case tx_value t of None \<Rightarrow> 0 | Some v \<Rightarrow> v) > 0 \<and> tx_data t = ''0x''
       then ''ETH transfer'' else ''Contract interaction'')"
    using explain_GET_analysed [OF assms(1,2) _ _ assms(3,4), of env s s1 rc s2]
    by (simp add: summaryOf_def isEthTransfer_def)
next
  assume "decideUnlock (isPaymentConfirmed L env) (trim (orEmpty q)) s = (u, s0) \<and>
          withAnyProvider env (p_getTransaction env tx) s0 = (Inr (Some t), s1') \<and>
          withAnyProvider env (p_getTransactionReceipt env tx) s1' = (Inr (Some rc), s2')"
  then show "summary (fst (explain_pay_GET L env p q s)) =
      (if (case tx_value t of None \<Rightarrow> 0 | Some v \<Rightarrow> v) > 0 \<and> tx_data t = ''0x''
       then ''ETH transfer'' else ''Contract interaction'')"
    using explain_pay_analysed [OF assms(1,2) _ _ _ assms(3,4), of env q s u s0 s1' "Some rc" s2']
    by (simp add: summaryOf_def isEthTransfer_def)
qed

theorem explain_summary_witness:
  "summary (fst (explain_GET demoLib shop (Some txH) [])) = ''ETH transfer'' \<and>
   summary (fst (explain_pay_GET demoLib shop (Some txH) (Some payA) [])) = ''ETH transfer'' \<and>
   summary (fst (explain_GET demoLib shop (Some payA) [])) = ''Contract interaction'' \<and>
   summary (fst (explain_pay_GET demoLib shop (Some payA) None [])) = ''Contract interaction''"
proof -
  have d1: "decideUnlock (isPaymentConfirmed demoLib shop) (trim (orEmpty (Some payA))) [] =
      (True, [(''https://base.publicnode.com'', GetBlockNumber),
              (''https://base.publicnode.com'', GetTransactionReceipt payA)])"
    using hashes_ok(2) not_hash_empty
    by (auto simp: decideUnlock_def trim_hashes shop_confirms_payA)
  have d2: "decideUnlock (isPaymentConfirmed demoLib shop) (trim (orEmpty None)) [] = (False, [])"
    by (simp add: decideUnlock_def trim_hashes)
  have v1: "(case tx_value ethTx of None \<Rightarrow> 0 | Some v \<Rightarrow> v) > 0 \<and> tx_data ethTx = ''0x''"
    by (simp add: ethTx_def)
  have v2: "\<not> ((case tx_value tokenTx of None \<Rightarrow> 0 | Some v \<Rightarrow> v) > 0 \<and> tx_data tokenTx = ''0x'')"
    by (simp add: tokenTx_def)
  from explain_summary [OF trim_hashes(1) hashes_ok(1) demo_addresses,
      where env = shop and s = "[]" and q = "Some payA" and u = True]
    shop_tx_txH shop_rc_txH d1 v1
  have a: "summary (fst (explain_GET demoLib shop (Some txH) [])) = ''ETH transfer'' \<and>
      summary (fst (explain_pay_GET demoLib shop (Some txH) (Some payA) [])) = ''ETH transfer''"
    by simp
  from explain_summary [OF trim_hashes(2) hashes_ok(2) demo_addresses_token,
      where env = shop and s = "[]" and q = None and u = False]
    shop_tx_payA shop_receipt_payA_x d2 v2
  have b: "summary (fst (explain_GET demoLib shop (Some payA) [])) = ''Contract interaction'' \<and>
      summary (fst (explain_pay_GET demoLib shop (Some payA) None [])) = ''Contract interaction''"
    by simp
  from a b show ?thesis by simp
qed

section \<open>The unlock flag\<close>

text \<open>
  As stated, the claim fails on the route that consults the payment reference. A payment
  whose receipt no node has indexed yet, but whose block holds the transfer, is
  CONFIRMED by \<open>verify\<close> through its fallback on the logs, and the flag is false: the
  route asks \<open>isPaymentConfirmed\<close>, which reads the receipt alone. And with a payment
  that both checks confirm, the flag is false when the target hash is malformed.
\<close>

theorem explain_unlock_flag_counterexample:
  "fst (verify demoLib shop payB []) =
     Inr \<lparr>ok = True, status = CONFIRMED, paidUSDC = Some ''3.000000'',
          message = ''Payment confirmed (logs fallback).''\<rparr> \<and>
   accessUnlocked (fst (explain_pay_GET demoLib shop (Some txH) (Some payB) [])) = False \<and>
   fst (verify demoLib shop payA []) =
     Inr \<lparr>ok = True, status = CONFIRMED, paidUSDC = Some ''3.000000'',
          message = ''Payment confirmed.''\<rparr> \<and>
   fst (isPaymentConfirmed demoLib shop payA []) = Inr True \<and>
   accessUnlocked (fst (explain_pay_GET demoLib shop (Some ''0x12'') (Some payA) [])) = False"
proof -
  have b: "accessUnlocked (fst (explain_pay_GET demoLib shop (Some txH) (Some payB) [])) = False"
    by (simp add: explain_pay_unlock decideUnlock_eq isPaymentConfirmed_eq trim_hashes
        shop_receipt_payB)
  have bad: "\<not> isTxHash (trim (orEmpty (Some ''0x12'')))"
    by (simp add: trim_eval orEmpty_def isTxHash_def)
  have c: "accessUnlocked (fst (explain_pay_GET demoLib shop (Some ''0x12'') (Some payA) [])) = False"
    using bad by (simp add: explain_pay_unlock)
  from b c show ?thesis
    by (simp add: shop_verify_payB shop_verify_payA shop_confirms_payA)
qed


text \<open>
  C1, amended. In the explain route that consults the payment reference, the unlock flag
  is false when no payment reference is given. In general it is true exactly when the
  trimmed target is a well-formed hash, a payment reference is given, and
  \<open>isPaymentConfirmed\<close> confirms that reference: the reference is a well-formed hash,
  the pool returns its receipt, the receipt's status is 1, and its qualifying transfers
  sum to at least 3000000. Nothing else of the request enters.
\<close>

theorem explain_unlock_flag:
  "accessUnlocked (fst (explain_pay_GET L env p None s)) = False \<and>
   accessUnlocked (fst (explain_pay_GET L env p q s)) =
     (isTxHash (trim (orEmpty p)) \<and> trim (orEmpty q) \<noteq> [] \<and>
      fst (isPaymentConfirmed L env (trim (orEmpty q)) s) = Inr True) \<and>
   fst (isPaymentConfirmed L env payTx s) =
     Inr (isTxHash payTx \<and>
          (case fst (withAnyProvider env (p_getTransactionReceipt env payTx) s) of
             Inr (Some rc) \<Rightarrow>
               rc_status rc = Some 1 \<and> PRICE_USDC_UNITS \<le> getPaidAmountFromLogs L (rc_logs rc)
           | _ \<Rightarrow> False))"
  by (simp add: explain_pay_unlock decideUnlock_eq isPaymentConfirmed_eq orEmpty_def trim_eval)

text \<open>
  The explain route of \<^verbatim>\<open>src/app/api/explain/route.ts\<close> reads no payment reference: it
  answers \<^verbatim>\<open>accessUnlocked: true\<close> for every transaction it analyses.
\<close>

lemma explain_GET_unlocked:
  "accessUnlocked (fst (explain_GET demoLib shop (Some txH) [])) = True"
proof -
  have "explain_GET demoLib shop (Some txH) [] =
      (\<lparr>summary = summaryOf ethTx, fee = None,
        explanation = joinLines (explanationLines (Some payer) (Some otherToken)
          (classify demoLib (rc_logs (successReceipt [approvalLog, payLog ''12''])))),
        basescan = basescanUrl txH, accessUnlocked = True\<rparr>,
        [] @ [(''https://base.publicnode.com'', GetBlockNumber),
           (''https://base.publicnode.com'', GetTransaction txH)] @
        [(''https://base.publicnode.com'', GetBlockNumber),
           (''https://base.publicnode.com'', GetTransactionReceipt txH)])"
    by (rule explain_GET_analysed [OF trim_hashes(1) hashes_ok(1) shop_tx_txH _ demo_addresses])
      (simp add: shop_rc_txH)
  then show ?thesis
    by (simp only: fst_conv explain_result.simps)
qed

section \<open>Errors while the payment is verified\<close>

lemma qualifying_decodes: "qualifying L log \<Longrightarrow> \<not> decodeFails L log"
  by (auto simp: qualifying_def inboundAmount_def decodeFails_def split: parse_result.splits)

lemma paidSpec_decodable:
  "paidSpec L (filter (\<lambda>log. \<not> decodeFails L log) logs) = paidSpec L logs"
proof -
  have "filter (qualifying L) (filter (\<lambda>log. \<not> decodeFails L log) logs) = filter (qualifying L) logs"
    by (induction logs) (auto dest: qualifying_decodes)
  then show ?thesis
    by (simp add: paidSpec_def)
qed

lemma paidSpec_undecodable: "list_all (decodeFails L) logs \<Longrightarrow> paidSpec L logs = 0"
proof -
  assume "list_all (decodeFails L) logs"
  then have "filter (qualifying L) logs = []"
    by (induction logs) (auto dest: qualifying_decodes)
  then show ?thesis
    by (simp add: paidSpec_def)
qed

lemma allDown_receipt:
  "withAnyProvider allDown (p_getTransactionReceipt allDown h) s =
     (Inl (Error ''timeout''), s @ probes RPC_URLS)"
  by (simp add: pool_eval allDown_def downNode_def probes_def)

lemma shop_receipt_payD:
  "withAnyProvider shop (p_getTransactionReceipt shop payD) s =
     (Inr (Some (successReceipt [brokenLog])),
      s @ [(''https://base.publicnode.com'', GetBlockNumber),
           (''https://base.publicnode.com'', GetTransactionReceipt payD)])"
  by (simp add: pool_eval shop_def shopNode_def payA_def payB_def payC_def payD_def payS_def txH_def)

lemma broken_throws:
  "parseLog demoLib TransferOnly (log_topics brokenLog) (log_data brokenLog) = ParseThrows"
  by (simp add: demoLib_def demoParse_def brokenLog_def)

lemma demo_paid_broken: "paidSpec demoLib [brokenLog, payLog d] = readNat d"
proof -
  have "\<not> qualifying demoLib brokenLog"
    using qualifying_decodes [of demoLib brokenLog]
    by (auto simp: decodeFails_def broken_throws)
  then show ?thesis
    by (simp add: paidSpec_def payLog_qualifies payLog_amount)
qed

text \<open>
  As stated, with a decode failure among the errors that make the flag false, the claim
  fails: the library throws on the first log of the receipt of \<open>payC\<close>, the loop
  ignores that log, the transfer that follows pays the price, and the flag is true.
\<close>

theorem unlock_fails_closed_counterexample:
  "parseLog demoLib TransferOnly (log_topics brokenLog) (log_data brokenLog) = ParseThrows \<and>
   fst (withAnyProvider shop (p_getTransactionReceipt shop payC) []) =
     Inr (Some (successReceipt [brokenLog, payLog ''3000000''])) \<and>
   accessUnlocked (fst (explain_pay_GET demoLib shop (Some txH) (Some payC) [])) = True"
proof -
  have ne: "payC \<noteq> []"
    using hashes_ok(4) not_hash_empty by auto
  have "accessUnlocked (fst (explain_pay_GET demoLib shop (Some txH) (Some payC) [])) = True"
    using ne
    by (simp add: explain_pay_unlock decideUnlock_eq isPaymentConfirmed_eq trim_hashes hashes_ok
        shop_receipt_payC successReceipt_def getPaid_spec demo_paid_broken read_price
        PRICE_USDC_UNITS_def)
  then show ?thesis
    by (simp add: broken_throws shop_receipt_payC)
qed


text \<open>
  C10, amended. In the explain route that consults the payment reference: an exception
  thrown by the payment check, an exhausted pool and a missing receipt each leave the
  unlock flag false. A log whose decoding fails is skipped and adds nothing to the paid
  amount: the flag is the one the receipt gives without such logs, and it is false
  when no log of the receipt can be decoded.
\<close>

theorem unlock_fails_closed:
  "(fst (check payTx s) = Inl e \<longrightarrow> fst (decideUnlock check payTx s) = False) \<and>
   (fst (withAnyProvider env (p_getTransactionReceipt env (trim (orEmpty q))) s) = Inl e \<longrightarrow>
      accessUnlocked (fst (explain_pay_GET L env p q s)) = False) \<and>
   (fst (withAnyProvider env (p_getTransactionReceipt env (trim (orEmpty q))) s) = Inr None \<longrightarrow>
      accessUnlocked (fst (explain_pay_GET L env p q s)) = False) \<and>
   (fst (withAnyProvider env (p_getTransactionReceipt env (trim (orEmpty q))) s) = Inr (Some rc) \<and>
    list_all (decodeFails L) (rc_logs rc) \<longrightarrow>
      accessUnlocked (fst (explain_pay_GET L env p q s)) = False) \<and>
   (fst (withAnyProvider env (p_getTransactionReceipt env (trim (orEmpty q))) s) = Inr (Some rc) \<longrightarrow>
      accessUnlocked (fst (explain_pay_GET L env p q s)) =
        (isTxHash (trim (orEmpty p)) \<and> isTxHash (trim (orEmpty q)) \<and> rc_status rc = Some 1 \<and>
         PRICE_USDC_UNITS \<le>
           getPaidAmountFromLogs L (filter (\<lambda>log. \<not> decodeFails L log) (rc_logs rc)))) \<and>
   getPaidAmountFromLogs L (filter (\<lambda>log. \<not> decodeFails L log) logs) =
     getPaidAmountFromLogs L logs"
proof (intro conjI impI)
  show "accessUnlocked (fst (explain_pay_GET L env p q s)) =
        (isTxHash (trim (orEmpty p)) \<and> isTxHash (trim (orEmpty q)) \<and> rc_status rc = Some 1 \<and>
         PRICE_USDC_UNITS \<le>
           getPaidAmountFromLogs L (filter (\<lambda>log. \<not> decodeFails L log) (rc_logs rc)))"
    if "fst (withAnyProvider env (p_getTransactionReceipt env (trim (orEmpty q))) s) =
        Inr (Some rc)"
    using that not_hash_empty
    by (auto simp: explain_pay_unlock decideUnlock_eq isPaymentConfirmed_eq getPaid_spec
        paidSpec_decodable)
  show "fst (decideUnlock check payTx s) = False" if "fst (check payTx s) = Inl e"
    using that by (simp add: decideUnlock_eq)
  show "accessUnlocked (fst (explain_pay_GET L env p q s)) = False"
    if "fst (withAnyProvider env (p_getTransactionReceipt env (trim (orEmpty q))) s) = Inl e"
    using that by (simp add: explain_pay_unlock decideUnlock_eq isPaymentConfirmed_eq)
  show "accessUnlocked (fst (explain_pay_GET L env p q s)) = False"
    if "fst (withAnyProvider env (p_getTransactionReceipt env (trim (orEmpty q))) s) = Inr None"
    using that by (simp add: explain_pay_unlock decideUnlock_eq isPaymentConfirmed_eq)
  show "accessUnlocked (fst (explain_pay_GET L env p q s)) = False"
    if "fst (withAnyProvider env (p_getTransactionReceipt env (trim (orEmpty q))) s) =
        Inr (Some rc) \<and> list_all (decodeFails L) (rc_logs rc)"
    using that paidSpec_undecodable [of L "rc_logs rc"]
    by (simp add: explain_pay_unlock decideUnlock_eq isPaymentConfirmed_eq getPaid_spec
        PRICE_USDC_UNITS_def)
  show "getPaidAmountFromLogs L (filter (\<lambda>log. \<not> decodeFails L log) logs) =
      getPaidAmountFromLogs L logs"
    by (simp add: getPaid_spec paidSpec_decodable)
qed

theorem unlock_fails_closed_witness:
  "fst (decideUnlock (\<lambda>h s. (Inl (Error ''boom''), s)) payA []) = False \<and>
   accessUnlocked (fst (explain_pay_GET demoLib allDown (Some txH) (Some payA) [])) = False \<and>
   accessUnlocked (fst (explain_pay_GET demoLib shop (Some txH) (Some payB) [])) = False \<and>
   accessUnlocked (fst (explain_pay_GET demoLib shop (Some txH) (Some payD) [])) = False"
proof -
  have fails: "list_all (decodeFails demoLib) (rc_logs (successReceipt [brokenLog]))"
    by (simp add: successReceipt_def decodeFails_def broken_throws)
  from unlock_fails_closed [where check = "\<lambda>h s. (Inl (Error ''boom''), s)" and payTx = payA
      and s = "[]" and e = "Error ''boom''"]
  have a: "fst (decideUnlock (\<lambda>h s. (Inl (Error ''boom''), s)) payA []) = False"
    by simp
  from unlock_fails_closed [where env = allDown and q = "Some payA" and s = "[]"
      and e = "Error ''timeout''" and L = demoLib and p = "Some txH"]
  have b: "accessUnlocked (fst (explain_pay_GET demoLib allDown (Some txH) (Some payA) [])) = False"
    by (simp add: trim_hashes allDown_receipt)
  from unlock_fails_closed [where env = shop and q = "Some payB" and s = "[]"
      and L = demoLib and p = "Some txH"]
  have c: "accessUnlocked (fst (explain_pay_GET demoLib shop (Some txH) (Some payB) [])) = False"
    by (simp add: trim_hashes shop_receipt_payB)
  from unlock_fails_closed [where env = shop and q = "Some payD" and s = "[]"
      and L = demoLib and p = "Some txH" and rc = "successReceipt [brokenLog]"] fails
  have d: "accessUnlocked (fst (explain_pay_GET demoLib shop (Some txH) (Some payD) [])) = False"
    by (simp add: trim_hashes shop_receipt_payD)
  from a b c d show ?thesis by simp
qed

section \<open>The log classifier\<close>

lemma set_touch: "set (touch log xs) = set xs \<union> set_option (emitter log)"
  by (auto simp: touch_def emitter_def setAdd_def split: option.splits)

lemma distinct_touch: "distinct xs \<Longrightarrow> distinct (touch log xs)"
  by (auto simp: touch_def setAdd_def split: option.splits)

lemma set_emitters_Cons: "set (emitters (log # logs)) = set_option (emitter log) \<union> set (emitters logs)"
  by (auto simp: emitters_def List.map_filter_simps split: option.splits)

lemma classifyLoop_touched:
  "set (touchedContracts (classifyLoop L logs st)) = set (touchedContracts st) \<union> set (emitters logs)"
proof (induction logs arbitrary: st)
  case Nil
  then show ?case by (simp add: emitters_def List.map_filter_simps)
next
  case (Cons log logs)
  show ?case
    by (simp add: Let_def Cons.IH set_touch set_emitters_Cons Un_assoc
        split: parse_result.splits log_description.splits)
qed

lemma classifyLoop_distinct:
  "distinct (touchedContracts st) \<Longrightarrow> distinct (touchedContracts (classifyLoop L logs st))"
proof (induction logs arbitrary: st)
  case Nil
  then show ?case by simp
next
  case (Cons log logs)
  from Cons.prems have d: "distinct (touch log (touchedContracts st))"
    by (rule distinct_touch)
  show ?case
    by (simp add: Let_def split: parse_result.splits log_description.splits)
      (auto intro!: Cons.IH simp: d)
qed

lemma classifyLoop_transfers:
  "tokenTransfers (classifyLoop L logs st) =
     tokenTransfers st + length (filter (decodesTransfer L) logs)"
proof (induction logs arbitrary: st)
  case Nil
  then show ?case by simp
next
  case (Cons log logs)
  show ?case
    by (simp add: Let_def Cons.IH decodesTransfer_def
        split: parse_result.splits log_description.splits)
qed

lemma classifyLoop_approvals:
  "approvals (classifyLoop L logs st) =
     approvals st + length (filter (decodesApproval L) logs)"
proof (induction logs arbitrary: st)
  case Nil
  then show ?case by simp
next
  case (Cons log logs)
  show ?case
    by (simp add: Let_def Cons.IH decodesApproval_def
        split: parse_result.splits log_description.splits)
qed

lemma classify_facts:
  "set (touchedContracts (classify L logs)) = set (emitters logs)"
  "distinct (touchedContracts (classify L logs))"
  "tokenTransfers (classify L logs) = length (filter (decodesTransfer L) logs)"
  "approvals (classify L logs) = length (filter (decodesApproval L) logs)"
  by (simp_all add: classify_def classifyLoop_touched classifyLoop_distinct
      classifyLoop_transfers classifyLoop_approvals noStats_def)

lemma classify_size: "length (touchedContracts (classify L logs)) = card (set (emitters logs))"
  using classify_facts(1,2) [of L logs] by (metis distinct_card)

lemma not_both: "decodesApproval L log \<Longrightarrow> \<not> decodesTransfer L log"
  by (auto simp: decodesApproval_def decodesTransfer_def
      split: parse_result.splits log_description.splits)

lemma show_small: "showNat 1 = ''1''" "showNat (Suc 0) = ''1''" "showNat 2 = ''2''"
  by simp_all

lemma demo_decodes:
  "decodesApproval demoLib approvalLog" "decodesTransfer demoLib (payLog d)"
  by (simp_all add: decodesApproval_def decodesTransfer_def demoLib_def demoParse_def
      approvalLog_def payLog_def)

lemma demo_emitters:
  "emitter approvalLog = Some ''0x6666666666666666666666666666666666666666''"
  "emitter (payLog d) = Some ''0x833589fcd6edb6e08f4c7c32d4f71b54bda02913''"
  by (simp_all add: emitter_def approvalLog_def payLog_def otherToken_def toLowerCase_def
      lowerChar_def)

text \<open>
  C9. For every list of logs, the touched contracts are the lower-cased addresses of the
  logs that have one, whatever their decoding gives, each once; the counters are the
  numbers of logs that decode as a transfer and as an approval, the others being
  skipped; the risk label is Medium when an approval was decoded, else Low-Medium (with
  an en dash) when more than one contract was touched, else Low. With one approval log
  and one transfer log from two distinct contracts, in either order, the explanation
  reads 2 contracts touched, 1 token transfer, 1 approval, risk Medium.
\<close>

theorem log_classifier:
  "set (touchedContracts (classify L logs)) = set (emitters logs) \<and>
   distinct (touchedContracts (classify L logs)) \<and>
   tokenTransfers (classify L logs) = length (filter (decodesTransfer L) logs) \<and>
   approvals (classify L logs) = length (filter (decodesApproval L) logs) \<and>
   risk (classify L logs) =
     (if filter (decodesApproval L) logs \<noteq> [] then ''Medium''
      else if card (set (emitters logs)) > 1 then ''Low'' @ endash @ ''Medium''
      else ''Low'') \<and>
   (decodesApproval L l1 \<and> decodesTransfer L l2 \<and>
    emitter l1 = Some c1 \<and> emitter l2 = Some c2 \<and> c1 \<noteq> c2 \<and>
    (logs = [l1, l2] \<or> logs = [l2, l1]) \<longrightarrow>
      length (touchedContracts (classify L logs)) = 2 \<and>
      tokenTransfers (classify L logs) = 1 \<and>
      approvals (classify L logs) = 1 \<and>
      risk (classify L logs) = ''Medium'' \<and>
      drop 2 (explanationLines a b (classify L logs)) =
        [bullet @ '' Contracts touched: 2'',
         bullet @ '' Token transfers: 1'',
         bullet @ '' Approvals: 1'',
         bullet @ '' Risk level: Medium''])"
proof (intro conjI impI)
  show "risk (classify L logs) =
     (if filter (decodesApproval L) logs \<noteq> [] then ''Medium''
      else if card (set (emitters logs)) > 1 then ''Low'' @ endash @ ''Medium''
      else ''Low'')"
    by (simp add: risk_def classify_facts classify_size)
next
  assume h: "decodesApproval L l1 \<and> decodesTransfer L l2 \<and>
    emitter l1 = Some c1 \<and> emitter l2 = Some c2 \<and> c1 \<noteq> c2 \<and>
    (logs = [l1, l2] \<or> logs = [l2, l1])"
  then have nt: "\<not> decodesTransfer L l1" and na: "\<not> decodesApproval L l2"
    using not_both [of L l1] not_both [of L l2] by auto
  from h have em: "set (emitters logs) = {c1, c2}"
    by (auto simp: emitters_def List.map_filter_simps)
  with h have sz: "length (touchedContracts (classify L logs)) = 2"
    by (simp add: classify_size)
  from h nt na have tt: "tokenTransfers (classify L logs) = 1"
    by (auto simp: classify_facts)
  from h nt na have ap: "approvals (classify L logs) = 1"
    by (auto simp: classify_facts)
  from ap have rk: "risk (classify L logs) = ''Medium''"
    by (simp add: risk_def)
  show "length (touchedContracts (classify L logs)) = 2" by (rule sz)
  show "tokenTransfers (classify L logs) = 1" by (rule tt)
  show "approvals (classify L logs) = 1" by (rule ap)
  show "risk (classify L logs) = ''Medium''" by (rule rk)
  show "drop 2 (explanationLines a b (classify L logs)) =
        [bullet @ '' Contracts touched: 2'',
         bullet @ '' Token transfers: 1'',
         bullet @ '' Approvals: 1'',
         bullet @ '' Risk level: Medium'']"
    by (simp add: explanationLines_def sz tt ap rk show_small del: showNat.simps)
qed (simp_all add: classify_facts)

theorem log_classifier_witness:
  "explanation (fst (explain_GET demoLib shop (Some txH) [])) =
     joinLines
       [bullet @ '' From: 0x5555'' @ ellipsis @ ''5555'',
        bullet @ '' To: 0x6666'' @ ellipsis @ ''6666'',
        bullet @ '' Contracts touched: 2'',
        bullet @ '' Token transfers: 1'',
        bullet @ '' Approvals: 1'',
        bullet @ '' Risk level: Medium'']"
proof -
  let ?logs = "[approvalLog, payLog ''12'']"
  let ?lines = "explanationLines (Some payer) (Some otherToken) (classify demoLib ?logs)"
  have e: "explain_GET demoLib shop (Some txH) [] =
      (\<lparr>summary = summaryOf ethTx, fee = None,
        explanation = joinLines (explanationLines (Some payer) (Some otherToken)
          (classify demoLib (rc_logs (successReceipt ?logs)))),
        basescan = basescanUrl txH, accessUnlocked = True\<rparr>,
        [] @ [(''https://base.publicnode.com'', GetBlockNumber),
           (''https://base.publicnode.com'', GetTransaction txH)] @
        [(''https://base.publicnode.com'', GetBlockNumber),
           (''https://base.publicnode.com'', GetTransactionReceipt txH)])"
    by (rule explain_GET_analysed [OF trim_hashes(1) hashes_ok(1) shop_tx_txH _ demo_addresses])
      (simp add: shop_rc_txH)
  have ne: "''0x6666666666666666666666666666666666666666'' \<noteq>
      ''0x833589fcd6edb6e08f4c7c32d4f71b54bda02913''"
    by simp
  from log_classifier [where L = demoLib and logs = ?logs and ?l1.0 = approvalLog and
      ?l2.0 = "payLog ''12''" and ?c1.0 = "''0x6666666666666666666666666666666666666666''" and
      ?c2.0 = "''0x833589fcd6edb6e08f4c7c32d4f71b54bda02913''" and a = "Some payer" and
      b = "Some otherToken"]
    demo_decodes demo_emitters ne
  have tail: "drop 2 ?lines =
      [bullet @ '' Contracts touched: 2'', bullet @ '' Token transfers: 1'',
       bullet @ '' Approvals: 1'', bullet @ '' Risk level: Medium'']"
    by blast
  have head: "take 2 ?lines =
      [bullet @ '' From: 0x5555'' @ ellipsis @ ''5555'',
       bullet @ '' To: 0x6666'' @ ellipsis @ ''6666'']"
    by (simp add: explanationLines_def short_def payer_def otherToken_def)
  have "?lines = take 2 ?lines @ drop 2 ?lines"
    by simp
  then have "?lines =
      [bullet @ '' From: 0x5555'' @ ellipsis @ ''5555'',
       bullet @ '' To: 0x6666'' @ ellipsis @ ''6666'',
       bullet @ '' Contracts touched: 2'', bullet @ '' Token transfers: 1'',
       bullet @ '' Approvals: 1'', bullet @ '' Risk level: Medium'']"
    by (simp only: head tail append_Cons append_Nil)
  then show ?thesis
    by (simp only: e fst_conv explain_result.simps successReceipt_def receipt.simps)
qed

end
